theory Spec2Isabelle
  imports Main
begin

section \<open>Simulated devices: the abstract contract and the factory by name\<close>

text \<open>
  The development follows \<^verbatim>\<open>devices/simulated_device.py\<close>: the abstract class
  \<^verbatim>\<open>SimulatedDevice\<close> (three bound references, three abstract lifecycle methods) and
  \<^verbatim>\<open>SimulatorFactory.create\<close>, which builds an object from a dotted name.

  The factory is a straight line of library calls (\<^verbatim>\<open>str.split\<close>, \<^verbatim>\<open>str.join\<close>,
  \<^verbatim>\<open>importlib.import_module\<close>, \<^verbatim>\<open>getattr\<close>, a call). Each of them is a function
  below, every exception is a value, and the interpreter's state (loaded modules, what
  the finders can locate, a trace of the operations carried out) is passed explicitly.
\<close>

subsection \<open>Exceptions\<close>

text \<open>
  A Python exception is its class name and a message. The messages are abbreviations
  of CPython's; only the class matters to a caller that inspects the failure kind.
\<close>

datatype pyexc = PyExc (exc_class: string) (exc_msg: string)

abbreviation ValueError :: "string \<Rightarrow> pyexc" where
  "ValueError msg \<equiv> PyExc ''ValueError'' msg"

abbreviation TypeError :: "string \<Rightarrow> pyexc" where
  "TypeError msg \<equiv> PyExc ''TypeError'' msg"

abbreviation IndexError :: "string \<Rightarrow> pyexc" where
  "IndexError msg \<equiv> PyExc ''IndexError'' msg"

abbreviation AttributeError :: "string \<Rightarrow> pyexc" where
  "AttributeError msg \<equiv> PyExc ''AttributeError'' msg"

abbreviation ModuleNotFoundError :: "string \<Rightarrow> pyexc" where
  "ModuleNotFoundError msg \<equiv> PyExc ''ModuleNotFoundError'' msg"

subsection \<open>Strings: \<^verbatim>\<open>str.split\<close>, \<^verbatim>\<open>str.join\<close>, slicing\<close>

text \<open>
  \<^verbatim>\<open>s.split(sep)\<close> for a one-character separator: the pieces between the separators,
  empty pieces kept, so the result is never empty (\<^verbatim>\<open>''.split('.') == ['']\<close>).
  \<open>cur\<close> is the piece being read.
\<close>

fun split_aux :: "char \<Rightarrow> string \<Rightarrow> string \<Rightarrow> string list" where
  "split_aux sep cur [] = [cur]"
| "split_aux sep cur (c # cs) =
     (if c = sep then cur # split_aux sep [] cs else split_aux sep (cur @ [c]) cs)"

definition split :: "char \<Rightarrow> string \<Rightarrow> string list" where
  "split sep s = split_aux sep [] s"

text \<open>\<^verbatim>\<open>sep.join(parts)\<close>.\<close>

fun join :: "string \<Rightarrow> string list \<Rightarrow> string" where
  "join sep [] = []"
| "join sep [p] = p"
| "join sep (p # q # ps) = p @ sep @ join sep (q # ps)"

text \<open>
  \<^verbatim>\<open>parts[:-1]\<close> is \<^term>\<open>butlast\<close> (a slice never raises, and is empty on the empty
  list). \<^verbatim>\<open>parts[-1]\<close> raises IndexError on the empty list.
\<close>

definition index_last :: "'a list \<Rightarrow> pyexc + 'a" where
  "index_last xs =
     (if xs = [] then Inl (IndexError ''list index out of range'') else Inr (last xs))"

text \<open>The two values that \<^verbatim>\<open>create\<close> derives from the name (lines 25 to 27).\<close>

definition module_segment :: "string \<Rightarrow> string" where
  "module_segment full_class_name = join ''.'' (butlast (split CHR ''.'' full_class_name))"

definition class_segment :: "string \<Rightarrow> pyexc + string" where
  "class_segment full_class_name = index_last (split CHR ''.'' full_class_name)"

text \<open>
  The specification's wording of the same step: the name is cut at its last namespace
  separator, into what stands before it and what stands after it. A name with no
  separator has no such cut.
\<close>

definition split_on_last_separator :: "string \<Rightarrow> (string \<times> string) option" where
  "split_on_last_separator s =
     (if CHR ''.'' \<in> set s
      then Some (rev (tl (dropWhile (\<lambda>c. c \<noteq> CHR ''.'') (rev s))),
                 rev (takeWhile (\<lambda>c. c \<noteq> CHR ''.'') (rev s)))
      else None)"

subsection \<open>Values, methods, classes\<close>

text \<open>
  First-order data: what a caller passes as construction arguments and what a method
  returns. \<open>PyFunc f\<close> is the function object named \<open>f\<close> (the report-state
  and send-telemetry callables are such objects); its behaviour is in the world.
\<close>

datatype pydata =
    PyNone
  | PyInt int
  | PyStr string
  | PyDict "(string \<times> pydata) list"
  | PyFunc string

text \<open>The instance dictionary (\<^verbatim>\<open>self.__dict__\<close>).\<close>

type_synonym attrs = "string \<rightharpoonup> pydata"

text \<open>
  What running a method body does: it returns or raises, it leaves the instance
  dictionary in some state, and it has called some callables, in order, each with its
  arguments.
\<close>

record outcome =
  ret :: "pyexc + pydata"
  self_after :: attrs
  callouts :: "(pydata \<times> pydata list) list"

record pymethod =
  isabstract :: bool
  body :: "attrs \<Rightarrow> pydata list \<Rightarrow> outcome"

text \<open>
  A class: its name, the names of its ancestors, its methods as attribute lookup on the
  class finds them (the own ones over the inherited ones), and \<^verbatim>\<open>__abstractmethods__\<close>.
  Single inheritance; no custom \<^verbatim>\<open>__new__\<close> and no metaclass other than ABCMeta.
\<close>

record pyclass =
  cls_name :: string
  cls_bases :: "string list"
  cls_dict :: "string \<rightharpoonup> pymethod"
  abstractmethods :: "string list"

text \<open>
  What a module attribute can be: data, a class, an instance, or another module, given
  by its name in the cache of loaded modules.
\<close>

datatype pyobject =
    Data pydata
  | Class pyclass
  | Instance pyclass attrs
  | ModuleRef string

definition returns_none :: "attrs \<Rightarrow> outcome" where
  "returns_none self = \<lparr>ret = Inr PyNone, self_after = self, callouts = []\<rparr>"

definition raises :: "pyexc \<Rightarrow> attrs \<Rightarrow> outcome" where
  "raises e self = \<lparr>ret = Inl e, self_after = self, callouts = []\<rparr>"

subsection \<open>Private names\<close>

text \<open>
  Inside the body of class \<open>cls\<close> an identifier that starts with two underscores and
  does not end with two is rewritten to \<^verbatim>\<open>_cls__name\<close>, the leading underscores of
  the class name dropped (no rewriting when the class name is underscores only).
\<close>

definition mangle :: "string \<Rightarrow> string \<Rightarrow> string" where
  "mangle cls ident =
     (let stripped = dropWhile (\<lambda>c. c = CHR ''_'') cls in
      if take 2 ident = ''__'' \<and> drop (length ident - 2) ident \<noteq> ''__'' \<and> stripped \<noteq> []
      then ''_'' @ stripped @ ident
      else ident)"

subsection \<open>The contract: class \<^verbatim>\<open>SimulatedDevice\<close> (lines 4 to 20)\<close>

text \<open>
  \<^verbatim>\<open>__init__(self, report_state_function, send_telemetry_function, properties)\<close>
  binds the three references under their private names. Any other number of positional
  arguments is a TypeError of the call, before the body runs.
\<close>

fun SimulatedDevice_init :: "attrs \<Rightarrow> pydata list \<Rightarrow> outcome" where
  "SimulatedDevice_init self [report_state_function, send_telemetry_function, properties] =
     \<lparr>ret = Inr PyNone,
      self_after = self
        (mangle ''SimulatedDevice'' ''__report_state'' \<mapsto> report_state_function,
         mangle ''SimulatedDevice'' ''__send_telemetry'' \<mapsto> send_telemetry_function,
         mangle ''SimulatedDevice'' ''__properties'' \<mapsto> properties),
      callouts = []\<rparr>"
| "SimulatedDevice_init self _ =
     raises (TypeError ''__init__() takes 4 positional arguments'') self"

text \<open>The three abstract methods; the body of each is \<^verbatim>\<open>pass\<close>.\<close>

fun SimulatedDevice_initialize :: "attrs \<Rightarrow> pydata list \<Rightarrow> outcome" where
  "SimulatedDevice_initialize self [] = returns_none self"
| "SimulatedDevice_initialize self _ =
     raises (TypeError ''initialize() takes 1 positional argument'') self"

fun SimulatedDevice_on_update :: "attrs \<Rightarrow> pydata list \<Rightarrow> outcome" where
  "SimulatedDevice_on_update self [update_state, payload] = returns_none self"
| "SimulatedDevice_on_update self _ =
     raises (TypeError ''on_update() takes 3 positional arguments'') self"

fun SimulatedDevice_run :: "attrs \<Rightarrow> pydata list \<Rightarrow> outcome" where
  "SimulatedDevice_run self [] = returns_none self"
| "SimulatedDevice_run self _ =
     raises (TypeError ''run() takes 1 positional argument'') self"

definition SimulatedDevice_namespace :: "(string \<times> pymethod) list" where
  "SimulatedDevice_namespace =
     [(''__init__'', \<lparr>isabstract = False, body = SimulatedDevice_init\<rparr>),
      (''initialize'', \<lparr>isabstract = True, body = SimulatedDevice_initialize\<rparr>),
      (''on_update'', \<lparr>isabstract = True, body = SimulatedDevice_on_update\<rparr>),
      (''run'', \<lparr>isabstract = True, body = SimulatedDevice_run\<rparr>)]"

subsection \<open>Class creation under ABCMeta\<close>

text \<open>
  A class body is its definitions in order; a later definition of a name replaces an
  earlier one.
\<close>

definition namespace_dict :: "(string \<times> pymethod) list \<Rightarrow> (string \<rightharpoonup> pymethod)" where
  "namespace_dict ns = map_of (rev ns)"

definition is_abstract_in :: "(string \<rightharpoonup> pymethod) \<Rightarrow> string \<Rightarrow> bool" where
  "is_abstract_in d k = (case d k of None \<Rightarrow> False | Some m \<Rightarrow> isabstract m)"

text \<open>
  \<^verbatim>\<open>ABCMeta.__new__\<close>: the abstract methods of the new class are the names its own
  body defines as abstract, and the abstract names of its base that are still abstract
  when looked up on the new class.
\<close>

definition abc_new :: "string \<Rightarrow> pyclass \<Rightarrow> (string \<times> pymethod) list \<Rightarrow> pyclass" where
  "abc_new name base ns =
     (let d = cls_dict base ++ namespace_dict ns in
      \<lparr>cls_name = name,
       cls_bases = cls_name base # cls_bases base,
       cls_dict = d,
       abstractmethods =
         remdups (filter (is_abstract_in (namespace_dict ns)) (map fst ns) @
                  filter (is_abstract_in d) (abstractmethods base))\<rparr>)"

definition ABC :: pyclass where
  "ABC = \<lparr>cls_name = ''ABC'', cls_bases = [''object''], cls_dict = Map.empty,
          abstractmethods = []\<rparr>"

definition SimulatedDevice :: pyclass where
  "SimulatedDevice = abc_new ''SimulatedDevice'' ABC SimulatedDevice_namespace"

definition lifecycle :: "string list" where
  "lifecycle = [''initialize'', ''on_update'', ''run'']"

text \<open>
  The classes that descend from the contract without ever defining the method \<open>k\<close>:
  the contract itself, and every subclass of such a class whose body has no \<open>k\<close>.
\<close>

inductive omits :: "pyclass \<Rightarrow> string \<Rightarrow> bool" where
  omits_contract: "k \<in> set lifecycle \<Longrightarrow> omits SimulatedDevice k"
| omits_derived: "omits base k \<Longrightarrow> k \<notin> fst ` set ns \<Longrightarrow> omits (abc_new name base ns) k"

subsection \<open>The interpreter's state\<close>

text \<open>A module: its name, its attributes, and whether it is a package (has \<^verbatim>\<open>__path__\<close>).\<close>

record pymodule =
  mod_name :: string
  mod_dict :: "string \<rightharpoonup> pyobject"
  is_package :: bool

text \<open>
  The operations that the trace records, in the order they happen. The trace is an
  observer's record of what the interpreter did; the program does not read it.
\<close>

datatype event =
    EvImport string
  | EvLoad string
  | EvGetattr string
  | EvCall "pydata list"
  | EvRun string string
  | EvCallout pydata "pydata list"

text \<open>
  \<open>sys_modules\<close> is the cache of loaded modules. \<open>finders name\<close> is what locating
  and executing the one module \<open>name\<close>, its parent package being loaded, comes to:
  nothing when no finder locates it, the exception its body raises, or the module. The
  body of a module has no other effect on the interpreter's state than the module being
  cached. \<open>funcs f\<close> is the behaviour of the function object \<open>PyFunc f\<close>.
\<close>

record world =
  sys_modules :: "string \<rightharpoonup> pymodule"
  finders :: "string \<rightharpoonup> (pyexc + pymodule)"
  funcs :: "string \<Rightarrow> pydata list \<Rightarrow> pyexc + pydata"
  trace :: "event list"

definition emit :: "event list \<Rightarrow> world \<Rightarrow> world" where
  "emit evs w = w\<lparr>trace := trace w @ evs\<rparr>"

definition new_events :: "world \<Rightarrow> world \<Rightarrow> event list" where
  "new_events w w' = drop (length (trace w)) (trace w')"

text \<open>The three steps of the factory among the recorded operations.\<close>

fun is_step :: "event \<Rightarrow> bool" where
  "is_step (EvImport _) = True"
| "is_step (EvGetattr _) = True"
| "is_step (EvCall _) = True"
| "is_step _ = False"

subsection \<open>\<^verbatim>\<open>importlib.import_module\<close>, \<^verbatim>\<open>getattr\<close>, calls\<close>

text \<open>
  \<^verbatim>\<open>name.rpartition('.')\<close>: what stands before the last separator (empty when there
  is none) and what stands after it.
\<close>

definition parent_name :: "string \<Rightarrow> string" where
  "parent_name name =
     (if CHR ''.'' \<in> set name
      then rev (tl (dropWhile (\<lambda>c. c \<noteq> CHR ''.'') (rev name)))
      else [])"

definition child_name :: "string \<Rightarrow> string" where
  "child_name name = rev (takeWhile (\<lambda>c. c \<noteq> CHR ''.'') (rev name))"

text \<open>
  Finding the spec of a module and loading it: no spec is a ModuleNotFoundError that
  names the module; otherwise the body runs, and the module is cached when the body
  raises nothing (a module whose body raises is taken out of the cache again).
\<close>

definition find_spec_and_load :: "string \<Rightarrow> world \<Rightarrow> (pyexc + pymodule) \<times> world" where
  "find_spec_and_load name w =
     (case finders w name of
        None \<Rightarrow> (Inl (ModuleNotFoundError name), w)
      | Some (Inl e) \<Rightarrow> (Inl e, emit [EvLoad name] w)
      | Some (Inr m) \<Rightarrow>
          (Inr m, (emit [EvLoad name] w)\<lparr>sys_modules := (sys_modules w)(name \<mapsto> m)\<rparr>))"

text \<open>\<^verbatim>\<open>setattr(parent_module, child, module)\<close> on the cached parent.\<close>

definition bind_child :: "string \<Rightarrow> pymodule \<Rightarrow> world \<Rightarrow> world" where
  "bind_child name parent_module w =
     w\<lparr>sys_modules := (sys_modules w)
          (parent_name name \<mapsto>
             parent_module\<lparr>mod_dict := (mod_dict parent_module)(child_name name \<mapsto> ModuleRef name)\<rparr>)\<rparr>"

text \<open>
  \<^verbatim>\<open>_find_and_load\<close>: a cached module is returned as it is. Otherwise the parent
  package, when the name has one, is imported first, by the same procedure; its failure
  is the failure of the import. If the module is still not cached, the parent must be a
  package (ModuleNotFoundError naming the module otherwise); then the module is found
  and loaded, and bound as an attribute of its parent.
\<close>

function find_and_load :: "string \<Rightarrow> world \<Rightarrow> (pyexc + pymodule) \<times> world" where
  "find_and_load name w =
     (case sys_modules w name of
        Some m \<Rightarrow> (Inr m, w)
      | None \<Rightarrow>
          if parent_name name = [] then find_spec_and_load name w
          else (case find_and_load (parent_name name) w of
                  (Inl e, w1) \<Rightarrow> (Inl e, w1)
                | (Inr parent_module, w1) \<Rightarrow>
                    (case sys_modules w1 name of
                       Some m \<Rightarrow> (Inr m, w1)
                     | None \<Rightarrow>
                         if \<not> is_package parent_module
                         then (Inl (ModuleNotFoundError name), w1)
                         else (case find_spec_and_load name w1 of
                                 (Inl e, w2) \<Rightarrow> (Inl e, w2)
                               | (Inr m, w2) \<Rightarrow> (Inr m, bind_child name parent_module w2)))))"
  by pat_completeness auto
termination
proof (relation "measure (\<lambda>(name, w). length name)")
  show "wf (measure (\<lambda>(name, w). length name))" by simp
next
  fix name :: string and w :: world
  assume "parent_name name \<noteq> []"
  then have dot: "CHR ''.'' \<in> set name"
    by (auto simp: parent_name_def split: if_splits)
  then have "dropWhile (\<lambda>c. c \<noteq> CHR ''.'') (rev name) \<noteq> []"
    by simp
  then have "length (tl (dropWhile (\<lambda>c. c \<noteq> CHR ''.'') (rev name))) <
      length (dropWhile (\<lambda>c. c \<noteq> CHR ''.'') (rev name))"
    by (cases "dropWhile (\<lambda>c. c \<noteq> CHR ''.'') (rev name)") auto
  also have "\<dots> \<le> length (rev name)"
    by (rule length_dropWhile_le)
  finally have "length (parent_name name) < length name"
    using dot by (simp add: parent_name_def)
  then show "((parent_name name, w), (name, w)) \<in> measure (\<lambda>(name, w). length name)"
    by simp
qed

declare find_and_load.simps [simp del]

text \<open>
  \<^verbatim>\<open>importlib.import_module(name)\<close> with no package: a relative name is a TypeError
  and the empty name a ValueError, both before anything is looked for; otherwise the
  module is found and loaded as above.
\<close>

definition import_module :: "string \<Rightarrow> world \<Rightarrow> (pyexc + pymodule) \<times> world" where
  "import_module name w =
     (let w1 = emit [EvImport name] w in
      if name = [] then (Inl (ValueError ''Empty module name''), w1)
      else if hd name = CHR ''.''
        then (Inl (TypeError ''the package argument is required for a relative import''), w1)
      else find_and_load name w1)"

definition py_getattr :: "pymodule \<Rightarrow> string \<Rightarrow> world \<Rightarrow> (pyexc + pyobject) \<times> world" where
  "py_getattr m name w =
     (case mod_dict m name of
        None \<Rightarrow> (Inl (AttributeError name), emit [EvGetattr name] w)
      | Some v \<Rightarrow> (Inr v, emit [EvGetattr name] w))"

text \<open>
  Running a method body on an instance dictionary: the run and the calls it makes go
  to the trace.
\<close>

definition run_body :: "pyclass \<Rightarrow> string \<Rightarrow> pymethod \<Rightarrow> attrs \<Rightarrow> pydata list \<Rightarrow> world \<Rightarrow> outcome \<times> world" where
  "run_body c name m self args w =
     (let out = body m self args in
      (out, emit (EvRun (cls_name c) name # map (\<lambda>(f, a). EvCallout f a) (callouts out)) w))"

text \<open>
  Calling a class. \<^verbatim>\<open>object.__new__\<close> refuses a class whose \<^verbatim>\<open>__abstractmethods__\<close>
  is not empty, with a TypeError, before \<^verbatim>\<open>__init__\<close>. Then \<^verbatim>\<open>__init__\<close> runs on
  the new, empty instance; it must return None.
\<close>

definition instantiate :: "pyclass \<Rightarrow> pydata list \<Rightarrow> world \<Rightarrow> (pyexc + pyobject) \<times> world" where
  "instantiate c args w =
     (if abstractmethods c \<noteq> []
      then (Inl (TypeError ''Cannot instantiate abstract class''), w)
      else case cls_dict c ''__init__'' of
          None \<Rightarrow>
            (if args = [] then (Inr (Instance c Map.empty), w)
             else (Inl (TypeError ''takes no arguments''), w))
        | Some m \<Rightarrow>
            (case run_body c ''__init__'' m Map.empty args w of (out, w') \<Rightarrow>
               (case ret out of
                  Inl e \<Rightarrow> (Inl e, w')
                | Inr v \<Rightarrow>
                    if v = PyNone then (Inr (Instance c (self_after out)), w')
                    else (Inl (TypeError ''__init__() should return None''), w'))))"

text \<open>
  \<^verbatim>\<open>obj.name(*args)\<close> on an instance, the method found on its class. The instance
  is returned as the body left it, also when the body raises.
\<close>

definition call_method :: "pyobject \<Rightarrow> string \<Rightarrow> pydata list \<Rightarrow> world \<Rightarrow> (pyexc + pydata) \<times> pyobject \<times> world" where
  "call_method obj name args w =
     (case obj of
        Instance c self \<Rightarrow>
          (case cls_dict c name of
             None \<Rightarrow> (Inl (AttributeError name), obj, w)
           | Some m \<Rightarrow>
               (case run_body c name m self args w of (out, w') \<Rightarrow>
                  (ret out, Instance c (self_after out), w')))
      | _ \<Rightarrow> (Inl (AttributeError name), obj, w))"

text \<open>
  \<^verbatim>\<open>v(*args)\<close> for any object \<open>v\<close>: a class is instantiated, a function object
  runs, an instance is called through \<^verbatim>\<open>__call__\<close> when its class has one, and
  anything else (other data, a module) is not callable (TypeError).
\<close>

fun py_call :: "pyobject \<Rightarrow> pydata list \<Rightarrow> world \<Rightarrow> (pyexc + pyobject) \<times> world" where
  "py_call (Class c) args w = instantiate c args (emit [EvCall args] w)"
| "py_call (Data (PyFunc f)) args w =
     (map_sum id Data (funcs w f args), emit [EvCall args, EvCallout (PyFunc f) args] w)"
| "py_call (Data d) args w =
     (Inl (TypeError ''object is not callable''), emit [EvCall args] w)"
| "py_call (Instance c self) args w =
     (case cls_dict c ''__call__'' of
        None \<Rightarrow> (Inl (TypeError ''object is not callable''), emit [EvCall args] w)
      | Some m \<Rightarrow>
          (case run_body c ''__call__'' m self args (emit [EvCall args] w) of (out, w') \<Rightarrow>
             (map_sum id Data (ret out), w')))"
| "py_call (ModuleRef name) args w =
     (Inl (TypeError ''object is not callable''), emit [EvCall args] w)"

subsection \<open>\<^verbatim>\<open>SimulatorFactory.create\<close> (lines 22 to 30)\<close>

definition create :: "string \<Rightarrow> pydata list \<Rightarrow> world \<Rightarrow> (pyexc + pyobject) \<times> world" where
  "create full_class_name args w =
     (let parts = split CHR ''.'' full_class_name;
          module_name = join ''.'' (butlast parts)
      in case index_last parts of
           Inl e \<Rightarrow> (Inl e, w)
         | Inr simple_class_name \<Rightarrow>
             (case import_module module_name w of
                (Inl e, w1) \<Rightarrow> (Inl e, w1)
              | (Inr module, w1) \<Rightarrow>
                  (case py_getattr module simple_class_name w1 of
                     (Inl e, w2) \<Rightarrow> (Inl e, w2)
                   | (Inr simulator_class, w2) \<Rightarrow> py_call simulator_class args w2)))"

subsection \<open>The algorithm in the specification's words\<close>

text \<open>
  Sequencing of fallible steps on the world: the second step runs on the first one's
  result, and does not run when the first one fails.
\<close>

definition and_then :: "(world \<Rightarrow> (pyexc + 'a) \<times> world) \<Rightarrow> ('a \<Rightarrow> world \<Rightarrow> (pyexc + 'b) \<times> world) \<Rightarrow> world \<Rightarrow> (pyexc + 'b) \<times> world" where
  "and_then step rest w =
     (case step w of (Inl e, w') \<Rightarrow> (Inl e, w') | (Inr x, w') \<Rightarrow> rest x w')"

text \<open>
  Split on the last separator; resolve the module path; look the class name up on the
  module; invoke what was found with the construction arguments.
\<close>

definition create_as_specified :: "string \<Rightarrow> pydata list \<Rightarrow> world \<Rightarrow> ((pyexc + pyobject) \<times> world) option" where
  "create_as_specified full_class_name construction_args w =
     (case split_on_last_separator full_class_name of
        None \<Rightarrow> None
      | Some (module_path, class_name) \<Rightarrow>
          Some (and_then (import_module module_path)
                  (\<lambda>m. and_then (py_getattr m class_name)
                    (\<lambda>symbol. py_call symbol construction_args)) w))"

subsection \<open>Hypotheses of the claims, as predicates\<close>

text \<open>The class provides the method \<open>k\<close>, and not as an abstract one.\<close>

definition implements :: "pyclass \<Rightarrow> string \<Rightarrow> bool" where
  "implements c k = (case cls_dict c k of None \<Rightarrow> False | Some m \<Rightarrow> \<not> isabstract m)"

text \<open>
  Invoking the class with these arguments raises nothing: the class is not abstract,
  and its \<^verbatim>\<open>__init__\<close> (or \<^verbatim>\<open>object\<close>'s, which takes none) returns None on them.
\<close>

definition constructor_accepts :: "pyclass \<Rightarrow> pydata list \<Rightarrow> bool" where
  "constructor_accepts c args =
     (abstractmethods c = [] \<and>
      (case cls_dict c ''__init__'' of
         None \<Rightarrow> args = []
       | Some init \<Rightarrow> ret (body init Map.empty args) = Inr PyNone))"

text \<open>
  The classes that descend from the contract and declare no abstract method of their
  own beyond the contract's three.
\<close>

inductive device_class :: "pyclass \<Rightarrow> bool" where
  device_contract: "device_class SimulatedDevice"
| device_derived: "device_class base \<Longrightarrow>
     (\<And>k m. (k, m) \<in> set ns \<Longrightarrow> isabstract m \<Longrightarrow> k \<in> set lifecycle) \<Longrightarrow>
     device_class (abc_new name base ns)"

text \<open>The callables that a list of recorded operations has invoked from method bodies.\<close>

fun callees :: "event list \<Rightarrow> pydata list" where
  "callees [] = []"
| "callees (EvCallout f a # evs) = f # callees evs"
| "callees (_ # evs) = callees evs"

subsection \<open>Example devices, a module and a world\<close>

text \<open>
  A concrete device. Its \<^verbatim>\<open>on_update\<close> keeps the payload and reports it through the
  bound report-state callable, which it reads under the contract's private name.
\<close>

fun Thermostat_on_update :: "attrs \<Rightarrow> pydata list \<Rightarrow> outcome" where
  "Thermostat_on_update self [update_state, payload] =
     (case self (mangle ''SimulatedDevice'' ''__report_state'') of
        None \<Rightarrow> raises (AttributeError ''_SimulatedDevice__report_state'') self
      | Some report \<Rightarrow>
          \<lparr>ret = Inr PyNone, self_after = self(''target'' \<mapsto> payload),
           callouts = [(report, [payload])]\<rparr>)"
| "Thermostat_on_update self _ =
     raises (TypeError ''on_update() takes 3 positional arguments'') self"

fun Thermostat_run :: "attrs \<Rightarrow> pydata list \<Rightarrow> outcome" where
  "Thermostat_run self [] = raises (PyExc ''RuntimeError'' ''sensor failure'') self"
| "Thermostat_run self _ = raises (TypeError ''run() takes 1 positional argument'') self"

definition Thermostat :: pyclass where
  "Thermostat = abc_new ''Thermostat'' SimulatedDevice
     [(''initialize'', \<lparr>isabstract = False, body = SimulatedDevice_initialize\<rparr>),
      (''on_update'', \<lparr>isabstract = False, body = Thermostat_on_update\<rparr>),
      (''run'', \<lparr>isabstract = False, body = Thermostat_run\<rparr>)]"

text \<open>A subclass that leaves \<^verbatim>\<open>on_update\<close> out.\<close>

definition HalfDevice :: pyclass where
  "HalfDevice = abc_new ''HalfDevice'' SimulatedDevice
     [(''initialize'', \<lparr>isabstract = False, body = SimulatedDevice_initialize\<rparr>),
      (''run'', \<lparr>isabstract = False, body = SimulatedDevice_run\<rparr>)]"

text \<open>A concrete device whose \<^verbatim>\<open>on_update\<close> calls \<^verbatim>\<open>print\<close>.\<close>

fun Chatty_on_update :: "attrs \<Rightarrow> pydata list \<Rightarrow> outcome" where
  "Chatty_on_update self [update_state, payload] =
     \<lparr>ret = Inr PyNone, self_after = self, callouts = [(PyFunc ''print'', [payload])]\<rparr>"
| "Chatty_on_update self _ =
     raises (TypeError ''on_update() takes 3 positional arguments'') self"

definition Chatty :: pyclass where
  "Chatty = abc_new ''Chatty'' SimulatedDevice
     [(''initialize'', \<lparr>isabstract = False, body = SimulatedDevice_initialize\<rparr>),
      (''on_update'', \<lparr>isabstract = False, body = Chatty_on_update\<rparr>),
      (''run'', \<lparr>isabstract = False, body = SimulatedDevice_run\<rparr>)]"

text \<open>
  The package \<^verbatim>\<open>pkg\<close> and its module \<^verbatim>\<open>pkg.devices\<close>. In the example world
  nothing is loaded yet; the finders locate these two, \<^verbatim>\<open>pkg.broken\<close>, whose body
  raises RuntimeError, and \<^verbatim>\<open>pkg.faulty\<close>, whose body raises AttributeError.
\<close>

definition pkg :: pymodule where
  "pkg = \<lparr>mod_name = ''pkg'', mod_dict = Map.empty, is_package = True\<rparr>"

definition pkg_devices :: pymodule where
  "pkg_devices =
     \<lparr>mod_name = ''pkg.devices'',
      mod_dict = [''Thermostat'' \<mapsto> Class Thermostat,
                  ''HalfDevice'' \<mapsto> Class HalfDevice,
                  ''VERSION'' \<mapsto> Data (PyInt 3),
                  ''helper'' \<mapsto> Data (PyFunc ''helper'')],
      is_package = False\<rparr>"

definition example_world :: world where
  "example_world =
     \<lparr>sys_modules = Map.empty,
      finders = [''pkg'' \<mapsto> Inr pkg,
                 ''pkg.devices'' \<mapsto> Inr pkg_devices,
                 ''pkg.broken'' \<mapsto> Inl (PyExc ''RuntimeError'' ''boom''),
                 ''pkg.faulty'' \<mapsto> Inl (AttributeError ''settings'')],
      funcs = (\<lambda>f args. Inr (PyStr f)),
      trace = []\<rparr>"

definition example_args :: "pydata list" where
  "example_args = [PyFunc ''report_fn'', PyFunc ''telemetry_fn'', PyDict [(''min_temp'', PyInt 10)]]"

text \<open>The example world once \<^verbatim>\<open>import_module(name)\<close> has loaded the package \<^verbatim>\<open>pkg\<close>.\<close>

definition pkg_loaded :: "string \<Rightarrow> world" where
  "pkg_loaded name =
     (emit [EvImport name, EvLoad ''pkg''] example_world)\<lparr>sys_modules := [''pkg'' \<mapsto> pkg]\<rparr>"

text \<open>The example world after \<^verbatim>\<open>import_module('pkg.devices')\<close>.\<close>

definition devices_loaded :: world where
  "devices_loaded =
     (emit [EvImport ''pkg.devices'', EvLoad ''pkg'', EvLoad ''pkg.devices''] example_world)
       \<lparr>sys_modules :=
          [''pkg.devices'' \<mapsto> pkg_devices,
           ''pkg'' \<mapsto> pkg\<lparr>mod_dict := [''devices'' \<mapsto> ModuleRef ''pkg.devices'']\<rparr>]\<rparr>"

text \<open>The instance dictionary that the contract's \<^verbatim>\<open>__init__\<close> leaves on the example arguments.\<close>

definition bound_example :: attrs where
  "bound_example =
     [''_SimulatedDevice__report_state'' \<mapsto> PyFunc ''report_fn'',
      ''_SimulatedDevice__send_telemetry'' \<mapsto> PyFunc ''telemetry_fn'',
      ''_SimulatedDevice__properties'' \<mapsto> PyDict [(''min_temp'', PyInt 10)]]"

section \<open>Helper facts\<close>

subsection \<open>Facts about splitting\<close>

lemma split_aux_not_Nil: "split_aux sep cur s \<noteq> []"
  by (induction s arbitrary: cur) auto

lemma split_not_Nil: "split sep s \<noteq> []"
  by (simp add: split_def split_aux_not_Nil)

lemma split_aux_no_sep: "sep \<notin> set s \<Longrightarrow> split_aux sep cur s = [cur @ s]"
  by (induction s arbitrary: cur) auto

lemma split_aux_append:
  "split_aux sep cur (xs @ sep # ys) = split_aux sep cur xs @ split_aux sep [] ys"
  by (induction xs arbitrary: cur) auto

lemma join_Cons_nonempty: "ps \<noteq> [] \<Longrightarrow> join [sep] (p # ps) = p @ sep # join [sep] ps"
  by (cases ps) auto

lemma join_split_aux: "join [sep] (split_aux sep cur s) = cur @ s"
proof (induction s arbitrary: cur)
  case Nil
  show ?case by simp
next
  case (Cons c cs)
  show ?case
  proof (cases "c = sep")
    case True
    then show ?thesis
      using Cons.IH [of "[]"] by (simp add: join_Cons_nonempty split_aux_not_Nil)
  next
    case False
    then show ?thesis
      using Cons.IH [of "cur @ [c]"] by simp
  qed
qed

lemma split_at_last:
  assumes "sep \<notin> set ys"
  shows "butlast (split sep (xs @ sep # ys)) = split sep xs"
    and "last (split sep (xs @ sep # ys)) = ys"
  using assms by (simp_all add: split_def split_aux_append split_aux_no_sep)

lemma last_cut:
  assumes "x \<in> set s"
  shows "s = rev (tl (dropWhile (\<lambda>c. c \<noteq> x) (rev s))) @ x # rev (takeWhile (\<lambda>c. c \<noteq> x) (rev s))"
proof -
  let ?d = "dropWhile (\<lambda>c. c \<noteq> x) (rev s)"
  let ?t = "takeWhile (\<lambda>c. c \<noteq> x) (rev s)"
  from assms have "?d \<noteq> []" by simp
  moreover from this have "hd ?d = x" using hd_dropWhile [of "\<lambda>c. c \<noteq> x" "rev s"] by simp
  ultimately have d: "?d = x # tl ?d" by (cases ?d) auto
  have "rev s = ?t @ ?d" by simp
  then have "rev s = ?t @ x # tl ?d" using d by simp
  then have "rev (rev s) = rev (?t @ x # tl ?d)" by (rule arg_cong)
  then show ?thesis by simp
qed

lemma module_segment_of_cut:
  assumes "CHR ''.'' \<notin> set cn"
  shows "module_segment (mp @ CHR ''.'' # cn) = mp"
proof -
  have "butlast (split CHR ''.'' (mp @ CHR ''.'' # cn)) = split_aux CHR ''.'' [] mp"
    using assms by (simp add: split_at_last) (simp add: split_def)
  then show ?thesis
    using join_split_aux [of "CHR ''.''" "[]" mp] by (simp add: module_segment_def)
qed

lemma class_segment_of_cut:
  assumes "CHR ''.'' \<notin> set cn"
  shows "class_segment (mp @ CHR ''.'' # cn) = Inr cn"
  using assms by (simp add: class_segment_def index_last_def split_at_last split_not_Nil)

lemma split_on_last_separator_cut:
  assumes "split_on_last_separator s = Some (mp, cn)"
  shows "s = mp @ CHR ''.'' # cn" and "CHR ''.'' \<notin> set cn"
proof -
  from assms have dot: "CHR ''.'' \<in> set s"
    and mp: "mp = rev (tl (dropWhile (\<lambda>c. c \<noteq> CHR ''.'') (rev s)))"
    and cn: "cn = rev (takeWhile (\<lambda>c. c \<noteq> CHR ''.'') (rev s))"
    by (auto simp: split_on_last_separator_def split: if_splits)
  show "s = mp @ CHR ''.'' # cn"
    using last_cut [OF dot] mp cn by simp
  show "CHR ''.'' \<notin> set cn"
    using cn by (auto dest: set_takeWhileD)
qed

lemma no_separator_parts: "CHR ''.'' \<notin> set s \<Longrightarrow> split CHR ''.'' s = [s]"
  by (simp add: split_def split_aux_no_sep)

lemma class_segment_total: "class_segment n = Inr (last (split CHR ''.'' n))"
  by (simp add: class_segment_def index_last_def split_not_Nil)

subsection \<open>Facts about the steps\<close>

lemma create_steps:
  assumes "class_segment n = Inr cn"
  shows "create n args w =
     and_then (import_module (module_segment n))
       (\<lambda>m. and_then (py_getattr m cn) (\<lambda>v. py_call v args)) w"
  using assms
  by (simp add: create_def and_then_def class_segment_def module_segment_def Let_def
      split: prod.splits sum.splits)

lemma new_events_emit [simp]: "new_events w (emit evs w) = evs"
  by (simp add: new_events_def emit_def)

lemma trace_emit [simp]: "trace (emit evs w) = trace w @ evs"
  by (simp add: emit_def)

lemma sys_modules_emit [simp]: "sys_modules (emit evs w) = sys_modules w"
  by (simp add: emit_def)

lemma emit_emit [simp]: "emit ys (emit xs w) = emit (xs @ ys) w"
  by (simp add: emit_def)

lemma finders_emit [simp]: "finders (emit evs w) = finders w"
  by (simp add: emit_def)

subsection \<open>Facts about the import\<close>

text \<open>The branches of \<^verbatim>\<open>_find_and_load\<close>, one by one.\<close>

lemma find_and_load_cases [case_names cached top parent_failed side_effect not_package
    child_failed child_loaded]:
  obtains
    m where "sys_modules w name = Some m" and "find_and_load name w = (Inr m, w)"
  | "sys_modules w name = None" and "parent_name name = []"
      and "find_and_load name w = find_spec_and_load name w"
  | e w1 where "sys_modules w name = None" and "parent_name name \<noteq> []"
      and "find_and_load (parent_name name) w = (Inl e, w1)"
      and "find_and_load name w = (Inl e, w1)"
  | pm w1 m where "sys_modules w name = None" and "parent_name name \<noteq> []"
      and "find_and_load (parent_name name) w = (Inr pm, w1)"
      and "sys_modules w1 name = Some m" and "find_and_load name w = (Inr m, w1)"
  | pm w1 where "sys_modules w name = None" and "parent_name name \<noteq> []"
      and "find_and_load (parent_name name) w = (Inr pm, w1)"
      and "sys_modules w1 name = None" and "\<not> is_package pm"
      and "find_and_load name w = (Inl (ModuleNotFoundError name), w1)"
  | pm w1 e w2 where "sys_modules w name = None" and "parent_name name \<noteq> []"
      and "find_and_load (parent_name name) w = (Inr pm, w1)"
      and "sys_modules w1 name = None" and "is_package pm"
      and "find_spec_and_load name w1 = (Inl e, w2)" and "find_and_load name w = (Inl e, w2)"
  | pm w1 m w2 where "sys_modules w name = None" and "parent_name name \<noteq> []"
      and "find_and_load (parent_name name) w = (Inr pm, w1)"
      and "sys_modules w1 name = None" and "is_package pm"
      and "find_spec_and_load name w1 = (Inr m, w2)"
      and "find_and_load name w = (Inr m, bind_child name pm w2)"
proof (cases "sys_modules w name")
  case (Some m)
  then have "find_and_load name w = (Inr m, w)"
    by (subst find_and_load.simps) simp
  then show ?thesis using Some that(1) by blast
next
  case None
  show ?thesis
  proof (cases "parent_name name = []")
    case True
    then have "find_and_load name w = find_spec_and_load name w"
      using None by (subst find_and_load.simps) simp
    then show ?thesis using None True that(2) by blast
  next
    case False
    obtain r w1 where p: "find_and_load (parent_name name) w = (r, w1)"
      by (cases "find_and_load (parent_name name) w")
    show ?thesis
    proof (cases r)
      case (Inl e)
      then have "find_and_load name w = (Inl e, w1)"
        using None False p by (subst find_and_load.simps) simp
      then show ?thesis using None False p Inl that(3) by blast
    next
      case (Inr pm)
      show ?thesis
      proof (cases "sys_modules w1 name")
        case (Some m)
        then have "find_and_load name w = (Inr m, w1)"
          using None False p Inr by (subst find_and_load.simps) simp
        then show ?thesis using None False p Inr Some that(4) by blast
      next
        case n1: None
        show ?thesis
        proof (cases "is_package pm")
          case nop: False
          then have "find_and_load name w = (Inl (ModuleNotFoundError name), w1)"
            using None False p Inr n1 by (subst find_and_load.simps) simp
          then show ?thesis using None False p Inr n1 nop that(5) by blast
        next
          case pk: True
          obtain r2 w2 where l: "find_spec_and_load name w1 = (r2, w2)"
            by (cases "find_spec_and_load name w1")
          show ?thesis
          proof (cases r2)
            case (Inl e)
            then have "find_and_load name w = (Inl e, w2)"
              using None False p Inr n1 pk l by (subst find_and_load.simps) simp
            then show ?thesis using None False p Inr n1 pk l Inl that(6) by blast
          next
            case r: (Inr m)
            then have "find_and_load name w = (Inr m, bind_child name pm w2)"
              using None False p Inr n1 pk l by (subst find_and_load.simps) simp
            then show ?thesis using None False p Inr n1 pk l r that(7) by blast
          qed
        qed
      qed
    qed
  qed
qed

lemma find_and_load_hit: "sys_modules w name = Some m \<Longrightarrow> find_and_load name w = (Inr m, w)"
  by (subst find_and_load.simps) simp

lemma find_and_load_top:
  "sys_modules w name = None \<Longrightarrow> parent_name name = [] \<Longrightarrow>
     find_and_load name w = find_spec_and_load name w"
  by (subst find_and_load.simps) simp

lemma find_and_load_under:
  assumes "sys_modules w name = None" and "parent_name name = p" and "p \<noteq> []"
    and "find_and_load p w = (Inr pm, w1)" and "sys_modules w1 name = None" and "is_package pm"
  shows "find_and_load name w =
     (case find_spec_and_load name w1 of
        (Inl e, w2) \<Rightarrow> (Inl e, w2)
      | (Inr m, w2) \<Rightarrow> (Inr m, bind_child name pm w2))"
  using assms by (subst find_and_load.simps) simp

lemma find_and_load_parent_fails:
  assumes "sys_modules w name = None" and "parent_name name = p" and "p \<noteq> []"
    and "find_and_load p w = (Inl e, w1)"
  shows "find_and_load name w = (Inl e, w1)"
  using assms by (subst find_and_load.simps) simp

lemma find_spec_and_load_finders: "finders (snd (find_spec_and_load name w)) = finders w"
  by (simp add: find_spec_and_load_def split: option.splits sum.splits)

lemma find_spec_and_load_trace:
  "\<exists>names. trace (snd (find_spec_and_load name w)) = trace w @ map EvLoad names"
proof (cases "finders w name")
  case None
  then have "trace (snd (find_spec_and_load name w)) = trace w @ map EvLoad []"
    by (simp add: find_spec_and_load_def)
  then show ?thesis by blast
next
  case (Some r)
  then have "trace (snd (find_spec_and_load name w)) = trace w @ map EvLoad [name]"
    by (simp add: find_spec_and_load_def split: sum.splits)
  then show ?thesis by blast
qed

lemma find_spec_and_load_error:
  assumes "fst (find_spec_and_load name w) = Inl e"
  shows "e = ModuleNotFoundError name \<and> finders w name = None \<or> finders w name = Some (Inl e)"
  using assms by (auto simp: find_spec_and_load_def split: option.splits sum.splits)

lemma find_spec_and_load_cached:
  assumes "find_spec_and_load name w = (Inr m, w1)"
  shows "sys_modules w1 name = Some m"
  using assms by (auto simp: find_spec_and_load_def split: option.splits sum.splits)

lemma bind_child_simps [simp]:
  "finders (bind_child name pm w) = finders w"
  "trace (bind_child name pm w) = trace w"
  by (simp_all add: bind_child_def)

lemma find_and_load_finders: "finders (snd (find_and_load name w)) = finders w"
proof (induction name w rule: find_and_load.induct)
  case (1 name w)
  show ?case
  proof (cases name w rule: find_and_load_cases)
    case top
    then show ?thesis by (simp add: find_spec_and_load_finders)
  next
    case (child_failed pm w1 e w2)
    then show ?thesis
      using "1.IH" find_spec_and_load_finders [of name w1] by simp
  next
    case (child_loaded pm w1 m w2)
    then show ?thesis
      using "1.IH" find_spec_and_load_finders [of name w1] by simp
  qed (use "1.IH" in auto)
qed

text \<open>Finding and loading runs module bodies and nothing else.\<close>

lemma find_and_load_trace:
  "\<exists>names. trace (snd (find_and_load name w)) = trace w @ map EvLoad names"
proof (induction name w rule: find_and_load.induct)
  case (1 name w)
  have nil: "trace w = trace w @ map EvLoad []" by simp
  show ?case
  proof (cases name w rule: find_and_load_cases)
    case (cached m)
    then show ?thesis using nil by (metis snd_conv)
  next
    case top
    then show ?thesis by (simp add: find_spec_and_load_trace)
  next
    case (parent_failed e w1)
    then show ?thesis using "1.IH" by simp
  next
    case (side_effect pm w1 m)
    then show ?thesis using "1.IH" by simp
  next
    case (not_package pm w1)
    then show ?thesis using "1.IH" by simp
  next
    case (child_failed pm w1 e w2)
    obtain ns where "trace w1 = trace w @ map EvLoad ns"
      using "1.IH" child_failed by auto
    moreover obtain ns' where "trace w2 = trace w1 @ map EvLoad ns'"
      using find_spec_and_load_trace [of name w1] child_failed by auto
    ultimately have "trace w2 = trace w @ map EvLoad (ns @ ns')" by simp
    then show ?thesis using child_failed by (metis snd_conv)
  next
    case (child_loaded pm w1 m w2)
    obtain ns where "trace w1 = trace w @ map EvLoad ns"
      using "1.IH" child_loaded by auto
    moreover obtain ns' where "trace w2 = trace w1 @ map EvLoad ns'"
      using find_spec_and_load_trace [of name w1] child_loaded by auto
    ultimately have "trace (bind_child name pm w2) = trace w @ map EvLoad (ns @ ns')" by simp
    then show ?thesis using child_loaded by (metis snd_conv)
  qed
qed

lemma parent_name_differs: "parent_name name \<noteq> [] \<Longrightarrow> parent_name name \<noteq> name"
proof
  assume ne: "parent_name name \<noteq> []" and eq: "parent_name name = name"
  from ne have dot: "CHR ''.'' \<in> set name"
    by (auto simp: parent_name_def split: if_splits)
  then have "dropWhile (\<lambda>c. c \<noteq> CHR ''.'') (rev name) \<noteq> []" by simp
  then have "length (tl (dropWhile (\<lambda>c. c \<noteq> CHR ''.'') (rev name))) <
      length (dropWhile (\<lambda>c. c \<noteq> CHR ''.'') (rev name))"
    by (cases "dropWhile (\<lambda>c. c \<noteq> CHR ''.'') (rev name)") auto
  also have "\<dots> \<le> length (rev name)" by (rule length_dropWhile_le)
  finally have "length (parent_name name) < length name"
    using dot by (simp add: parent_name_def)
  then show False using eq by simp
qed

text \<open>A module that the import returns is in the cache afterwards.\<close>

lemma find_and_load_cached:
  assumes "find_and_load name w = (Inr m, w1)"
  shows "sys_modules w1 name = Some m"
proof (cases name w rule: find_and_load_cases)
  case (cached m')
  then show ?thesis using assms by simp
next
  case top
  then show ?thesis using assms by (simp add: find_spec_and_load_cached)
next
  case (child_loaded pm w' m' w2)
  then have "sys_modules w2 name = Some m'"
    by (simp add: find_spec_and_load_cached)
  then show ?thesis
    using assms child_loaded parent_name_differs [of name]
    by (auto simp: bind_child_def)
qed (use assms in auto)

text \<open>
  A failure of finding and loading is a ModuleNotFoundError, for the module or one of
  its parents, or what the body of one of them raised.
\<close>

lemma find_and_load_error:
  assumes "fst (find_and_load name w) = Inl e"
  shows "(\<exists>x. e = ModuleNotFoundError x) \<or> (\<exists>x. finders w x = Some (Inl e))"
  using assms
proof (induction name w rule: find_and_load.induct)
  case (1 name w)
  show ?case
  proof (cases name w rule: find_and_load_cases)
    case top
    then show ?thesis
      using "1.prems" find_spec_and_load_error [of name w e] by auto
  next
    case (parent_failed e' w1)
    then show ?thesis using "1.IH" "1.prems" by simp
  next
    case (child_failed pm w1 e' w2)
    then have "finders w1 = finders w"
      using find_and_load_finders [of "parent_name name" w] by simp
    then show ?thesis
      using child_failed "1.prems" find_spec_and_load_error [of name w1 e] by auto
  qed (use "1.prems" in auto)
qed

lemma import_module_trace:
  "\<exists>names. trace (snd (import_module nm w)) = trace w @ EvImport nm # map EvLoad names"
proof -
  have nil: "trace w @ [EvImport nm] = trace w @ EvImport nm # map EvLoad []" by simp
  obtain names where
    "trace (snd (find_and_load nm (emit [EvImport nm] w))) =
       trace (emit [EvImport nm] w) @ map EvLoad names"
    using find_and_load_trace by blast
  then have "trace (snd (find_and_load nm (emit [EvImport nm] w))) =
      trace w @ EvImport nm # map EvLoad names"
    by simp
  then show ?thesis
    using nil by (auto simp: import_module_def Let_def)
qed

lemma import_module_error_cases:
  assumes "fst (import_module nm w) = Inl e"
  shows "(nm = [] \<and> e = ValueError ''Empty module name'')
       \<or> (nm \<noteq> [] \<and> hd nm = CHR ''.'' \<and> exc_class e = ''TypeError'')
       \<or> (\<exists>x. e = ModuleNotFoundError x)
       \<or> (\<exists>x. finders w x = Some (Inl e))"
proof (cases "nm = [] \<or> hd nm = CHR ''.''")
  case True
  then show ?thesis
    using assms by (auto simp: import_module_def Let_def split: if_splits)
next
  case False
  then have "fst (find_and_load nm (emit [EvImport nm] w)) = Inl e"
    using assms by (simp add: import_module_def Let_def)
  then show ?thesis
    using find_and_load_error [of nm "emit [EvImport nm] w" e] by simp
qed

lemma import_module_hit:
  assumes "nm \<noteq> []" and "hd nm \<noteq> CHR ''.''" and "sys_modules w nm = Some m"
  shows "import_module nm w = (Inr m, emit [EvImport nm] w)"
  using assms by (simp add: import_module_def Let_def find_and_load_hit)

lemma py_getattr_world: "snd (py_getattr m cn w) = emit [EvGetattr cn] w"
  by (simp add: py_getattr_def split: option.splits)

subsection \<open>Facts about the contract and its subclasses\<close>

lemma abstractmethods_SimulatedDevice: "abstractmethods SimulatedDevice = lifecycle"
  by (simp add: SimulatedDevice_def abc_new_def ABC_def SimulatedDevice_namespace_def
      namespace_dict_def is_abstract_in_def lifecycle_def)

lemma cls_dict_SimulatedDevice:
  "cls_dict SimulatedDevice =
     [''__init__'' \<mapsto> \<lparr>isabstract = False, body = SimulatedDevice_init\<rparr>,
      ''initialize'' \<mapsto> \<lparr>isabstract = True, body = SimulatedDevice_initialize\<rparr>,
      ''on_update'' \<mapsto> \<lparr>isabstract = True, body = SimulatedDevice_on_update\<rparr>,
      ''run'' \<mapsto> \<lparr>isabstract = True, body = SimulatedDevice_run\<rparr>]"
  by (rule ext) (simp add: SimulatedDevice_def abc_new_def ABC_def SimulatedDevice_namespace_def
      namespace_dict_def map_add_def)

lemma namespace_dict_absent: "k \<notin> fst ` set ns \<Longrightarrow> namespace_dict ns k = None"
  by (simp add: namespace_dict_def map_of_eq_None_iff)

lemma omits_abstract:
  assumes "omits c k"
  shows "k \<in> set (abstractmethods c) \<and> is_abstract_in (cls_dict c) k"
  using assms
proof (induction rule: omits.induct)
  case (omits_contract k)
  then show ?case
    by (auto simp: abstractmethods_SimulatedDevice cls_dict_SimulatedDevice lifecycle_def
        is_abstract_in_def)
next
  case (omits_derived base k ns name)
  have "(cls_dict base ++ namespace_dict ns) k = cls_dict base k"
    using omits_derived.hyps(2) by (simp add: namespace_dict_absent map_add_def)
  then have "is_abstract_in (cls_dict base ++ namespace_dict ns) k"
    using omits_derived.IH by (simp add: is_abstract_in_def)
  then show ?case
    using omits_derived.IH by (simp add: abc_new_def Let_def)
qed

subsection \<open>Facts about the examples\<close>

lemma parent_names:
  "parent_name ''pkg'' = []"
  "parent_name ''nopkg'' = []"
  "parent_name ''pkg.devices'' = ''pkg''"
  "parent_name ''pkg.missing'' = ''pkg''"
  "parent_name ''pkg.broken'' = ''pkg''"
  "parent_name ''pkg.faulty'' = ''pkg''"
  "parent_name ''nopkg.devices'' = ''nopkg''"
  "child_name ''pkg.devices'' = ''devices''"
  by (simp_all add: parent_name_def child_name_def)

lemma load_pkg:
  "find_and_load ''pkg'' (emit [EvImport nm] example_world) = (Inr pkg, pkg_loaded nm)"
proof -
  have "sys_modules (emit [EvImport nm] example_world) ''pkg'' = None"
    by (simp add: example_world_def)
  then have "find_and_load ''pkg'' (emit [EvImport nm] example_world) =
      find_spec_and_load ''pkg'' (emit [EvImport nm] example_world)"
    by (rule find_and_load_top) (simp add: parent_names)
  then show ?thesis
    by (simp add: find_spec_and_load_def pkg_loaded_def example_world_def emit_def)
qed

lemma under_pkg:
  assumes "parent_name nm = ''pkg''" and "nm \<noteq> ''pkg''" and "nm \<noteq> []" and "hd nm \<noteq> CHR ''.''"
  shows "import_module nm example_world =
     (case find_spec_and_load nm (pkg_loaded nm) of
        (Inl e, w2) \<Rightarrow> (Inl e, w2)
      | (Inr m, w2) \<Rightarrow> (Inr m, bind_child nm pkg w2))"
proof -
  have "sys_modules (emit [EvImport nm] example_world) nm = None"
    by (simp add: example_world_def)
  moreover have "sys_modules (pkg_loaded nm) nm = None"
    using assms(2) by (simp add: pkg_loaded_def)
  moreover have "is_package pkg"
    by (simp add: pkg_def)
  ultimately have "find_and_load nm (emit [EvImport nm] example_world) =
     (case find_spec_and_load nm (pkg_loaded nm) of
        (Inl e, w2) \<Rightarrow> (Inl e, w2)
      | (Inr m, w2) \<Rightarrow> (Inr m, bind_child nm pkg w2))"
    using assms(1) load_pkg [of nm]
    by (intro find_and_load_under [where p = "''pkg''"]) simp_all
  then show ?thesis
    using assms(3,4) by (simp add: import_module_def Let_def)
qed

lemma import_pkg_devices:
  "import_module ''pkg.devices'' example_world = (Inr pkg_devices, devices_loaded)"
proof -
  have "find_spec_and_load ''pkg.devices'' (pkg_loaded ''pkg.devices'') =
      (Inr pkg_devices,
       (emit [EvLoad ''pkg.devices''] (pkg_loaded ''pkg.devices''))
         \<lparr>sys_modules := [''pkg'' \<mapsto> pkg, ''pkg.devices'' \<mapsto> pkg_devices]\<rparr>)"
    by (simp add: find_spec_and_load_def pkg_loaded_def example_world_def emit_def)
  moreover have "[''pkg'' \<mapsto> pkg, ''pkg.devices'' \<mapsto> pkg_devices,
        ''pkg'' \<mapsto> pkg\<lparr>mod_dict := (mod_dict pkg)(''devices'' \<mapsto> ModuleRef ''pkg.devices'')\<rparr>] =
      [''pkg.devices'' \<mapsto> pkg_devices,
        ''pkg'' \<mapsto> pkg\<lparr>mod_dict := [''devices'' \<mapsto> ModuleRef ''pkg.devices'']\<rparr>]"
    by (rule ext) (simp add: pkg_def)
  ultimately show ?thesis
    using under_pkg [of "''pkg.devices''"]
    by (simp add: parent_names bind_child_def devices_loaded_def pkg_loaded_def emit_def
        example_world_def)
qed

lemma import_pkg_missing:
  "import_module ''pkg.missing'' example_world =
     (Inl (ModuleNotFoundError ''pkg.missing''), pkg_loaded ''pkg.missing'')"
proof -
  have "find_spec_and_load ''pkg.missing'' (pkg_loaded ''pkg.missing'') =
      (Inl (ModuleNotFoundError ''pkg.missing''), pkg_loaded ''pkg.missing'')"
    by (simp add: find_spec_and_load_def pkg_loaded_def example_world_def emit_def)
  then show ?thesis
    using under_pkg [of "''pkg.missing''"] by (simp add: parent_names)
qed

lemma import_pkg_broken:
  "import_module ''pkg.broken'' example_world =
     (Inl (PyExc ''RuntimeError'' ''boom''),
      emit [EvLoad ''pkg.broken''] (pkg_loaded ''pkg.broken''))"
proof -
  have "find_spec_and_load ''pkg.broken'' (pkg_loaded ''pkg.broken'') =
      (Inl (PyExc ''RuntimeError'' ''boom''),
       emit [EvLoad ''pkg.broken''] (pkg_loaded ''pkg.broken''))"
    by (simp add: find_spec_and_load_def pkg_loaded_def example_world_def emit_def)
  then show ?thesis
    using under_pkg [of "''pkg.broken''"] by (simp add: parent_names)
qed

lemma import_pkg_faulty:
  "import_module ''pkg.faulty'' example_world =
     (Inl (AttributeError ''settings''),
      emit [EvLoad ''pkg.faulty''] (pkg_loaded ''pkg.faulty''))"
proof -
  have "find_spec_and_load ''pkg.faulty'' (pkg_loaded ''pkg.faulty'') =
      (Inl (AttributeError ''settings''),
       emit [EvLoad ''pkg.faulty''] (pkg_loaded ''pkg.faulty''))"
    by (simp add: find_spec_and_load_def pkg_loaded_def example_world_def emit_def)
  then show ?thesis
    using under_pkg [of "''pkg.faulty''"] by (simp add: parent_names)
qed

lemma import_nopkg_devices:
  "import_module ''nopkg.devices'' example_world =
     (Inl (ModuleNotFoundError ''nopkg''), emit [EvImport ''nopkg.devices''] example_world)"
proof -
  let ?w = "emit [EvImport ''nopkg.devices''] example_world"
  have n: "sys_modules ?w ''nopkg'' = None" and d: "sys_modules ?w ''nopkg.devices'' = None"
    by (simp_all add: example_world_def)
  have t: "find_and_load ''nopkg'' ?w = find_spec_and_load ''nopkg'' ?w"
    using n by (rule find_and_load_top) (simp add: parent_names)
  have s: "find_spec_and_load ''nopkg'' ?w = (Inl (ModuleNotFoundError ''nopkg''), ?w)"
    by (simp add: find_spec_and_load_def example_world_def)
  have p: "find_and_load ''nopkg'' ?w = (Inl (ModuleNotFoundError ''nopkg''), ?w)"
    using t s by (rule trans)
  have q: "parent_name ''nopkg.devices'' = ''nopkg''" and r: "''nopkg'' \<noteq> []"
    by (simp_all add: parent_names)
  have "find_and_load ''nopkg.devices'' ?w = (Inl (ModuleNotFoundError ''nopkg''), ?w)"
    using d q r p by (rule find_and_load_parent_fails)
  then show ?thesis
    by (simp add: import_module_def Let_def)
qed

lemma segments_Thermostat:
  "module_segment ''pkg.devices.Thermostat'' = ''pkg.devices''"
  "class_segment ''pkg.devices.Thermostat'' = Inr ''Thermostat''"
  by (simp_all add: module_segment_def class_segment_def index_last_def split_def)

lemma segments_HalfDevice:
  "module_segment ''pkg.devices.HalfDevice'' = ''pkg.devices''"
  "class_segment ''pkg.devices.HalfDevice'' = Inr ''HalfDevice''"
  by (simp_all add: module_segment_def class_segment_def index_last_def split_def)

lemma segments_NoSuchDevice:
  "module_segment ''pkg.devices.NoSuchDevice'' = ''pkg.devices''"
  "class_segment ''pkg.devices.NoSuchDevice'' = Inr ''NoSuchDevice''"
  by (simp_all add: module_segment_def class_segment_def index_last_def split_def)

lemma segments_VERSION:
  "module_segment ''pkg.devices.VERSION'' = ''pkg.devices''"
  "class_segment ''pkg.devices.VERSION'' = Inr ''VERSION''"
  by (simp_all add: module_segment_def class_segment_def index_last_def split_def)

lemma segments_helper:
  "module_segment ''pkg.devices.helper'' = ''pkg.devices''"
  "class_segment ''pkg.devices.helper'' = Inr ''helper''"
  by (simp_all add: module_segment_def class_segment_def index_last_def split_def)

lemma segments_missing:
  "module_segment ''pkg.missing.Thermostat'' = ''pkg.missing''"
  "module_segment ''pkg.broken.Thermostat'' = ''pkg.broken''"
  "module_segment ''pkg.faulty.Thermostat'' = ''pkg.faulty''"
  "module_segment ''nopkg.devices.Thermostat'' = ''nopkg.devices''"
  by (simp_all add: module_segment_def split_def)

subsection \<open>Facts about failing imports\<close>

lemma create_import_fails:
  assumes "fst (import_module (module_segment n) w) = Inl e"
  shows "create n args w = (Inl e, snd (import_module (module_segment n) w))"
proof -
  obtain w1 where "import_module (module_segment n) w = (Inl e, w1)"
    using assms by (cases "import_module (module_segment n) w") auto
  then show ?thesis
    by (simp add: create_steps [OF class_segment_total] and_then_def)
qed

subsection \<open>Facts about calls and what they record\<close>

lemma emit_Nil [simp]: "emit [] w = w"
  by (simp add: emit_def)

lemma new_events_append: "trace w' = trace w @ evs \<Longrightarrow> new_events w w' = evs"
  by (simp add: new_events_def)

lemma run_body_eq:
  "run_body c k m self args w =
     (body m self args,
      emit (EvRun (cls_name c) k # map (\<lambda>(f, a). EvCallout f a) (callouts (body m self args))) w)"
  by (simp add: run_body_def Let_def)

lemma no_step_in_callouts [simp]: "filter is_step (map (\<lambda>(f, a). EvCallout f a) xs) = []"
  by (induction xs) auto

lemma callees_callouts [simp]: "callees (map (\<lambda>(f, a). EvCallout f a) xs) = map fst xs"
  by (induction xs) auto

lemma call_method_eq:
  assumes "cls_dict c k = Some meth"
  shows "call_method (Instance c self) k args w =
     (ret (body meth self args), Instance c (self_after (body meth self args)),
      emit (EvRun (cls_name c) k # map (\<lambda>(f, a). EvCallout f a) (callouts (body meth self args))) w)"
  using assms by (simp add: call_method_def run_body_eq)

lemma constructor_accepts_iff:
  "constructor_accepts c args \<longleftrightarrow> (\<exists>obj. fst (instantiate c args w) = Inr obj)"
  by (auto simp: constructor_accepts_def instantiate_def run_body_eq
      split: option.splits sum.splits if_splits)

lemma instantiate_accepted:
  assumes "constructor_accepts c args"
  shows "\<exists>self evs. instantiate c args w = (Inr (Instance c self), emit evs w)
           \<and> filter is_step evs = []"
proof (cases "cls_dict c ''__init__''")
  case None
  then have "instantiate c args w = (Inr (Instance c Map.empty), emit [] w)"
    using assms by (simp add: constructor_accepts_def instantiate_def)
  then show ?thesis by fastforce
next
  case (Some init)
  let ?evs = "EvRun (cls_name c) ''__init__'' #
      map (\<lambda>(f, a). EvCallout f a) (callouts (body init Map.empty args))"
  have "instantiate c args w =
      (Inr (Instance c (self_after (body init Map.empty args))), emit ?evs w)"
    using assms Some by (simp add: constructor_accepts_def instantiate_def run_body_eq)
  moreover have "filter is_step ?evs = []" by simp
  ultimately show ?thesis by blast
qed

lemma instantiate_events:
  "\<exists>evs. snd (instantiate c args w) = emit evs w \<and> filter is_step evs = []"
proof (cases "abstractmethods c = []")
  case False
  then have "snd (instantiate c args w) = emit [] w"
    by (simp add: instantiate_def)
  then show ?thesis by fastforce
next
  case True
  show ?thesis
  proof (cases "cls_dict c ''__init__''")
    case None
    then have "snd (instantiate c args w) = emit [] w"
      using True by (simp add: instantiate_def)
    then show ?thesis by fastforce
  next
    case (Some init)
    let ?evs = "EvRun (cls_name c) ''__init__'' #
        map (\<lambda>(f, a). EvCallout f a) (callouts (body init Map.empty args))"
    have "snd (instantiate c args w) = emit ?evs w"
      using True Some by (simp add: instantiate_def run_body_eq split: sum.splits)
    moreover have "filter is_step ?evs = []" by simp
    ultimately show ?thesis by blast
  qed
qed

lemma py_call_events:
  "\<exists>evs. snd (py_call v args w) = emit (EvCall args # evs) w \<and> filter is_step evs = []"
proof (cases v)
  case (Data d)
  then show ?thesis by (cases d) auto
next
  case (Class c)
  obtain evs where "snd (instantiate c args (emit [EvCall args] w)) = emit evs (emit [EvCall args] w)"
    and "filter is_step evs = []"
    using instantiate_events by blast
  then show ?thesis using Class by auto
next
  case (Instance c self)
  then show ?thesis
    by (cases "cls_dict c ''__call__''") (auto simp: run_body_eq)
next
  case (ModuleRef name)
  then show ?thesis by auto
qed

lemma no_step_in_loads [simp]: "filter is_step (map EvLoad names) = []"
  by (induction names) auto

lemma import_module_events:
  "\<exists>evs. trace (snd (import_module nm w)) = trace w @ EvImport nm # evs \<and> filter is_step evs = []"
  using import_module_trace [of nm w] no_step_in_loads by blast

lemma import_module_loaded:
  assumes "import_module nm w = (Inr m, w1)"
  shows "sys_modules w1 nm = Some m"
proof -
  have "find_and_load nm (emit [EvImport nm] w) = (Inr m, w1)"
    using assms by (auto simp: import_module_def Let_def split: if_splits)
  then show ?thesis by (rule find_and_load_cached)
qed

lemma create_step_events:
  assumes "class_segment n = Inr cn"
  shows "filter is_step (new_events w (snd (create n args w))) =
     (case import_module (module_segment n) w of
        (Inl e, w1) \<Rightarrow> [EvImport (module_segment n)]
      | (Inr m, w1) \<Rightarrow>
          (case mod_dict m cn of
             None \<Rightarrow> [EvImport (module_segment n), EvGetattr cn]
           | Some v \<Rightarrow> [EvImport (module_segment n), EvGetattr cn, EvCall args]))"
proof -
  let ?mp = "module_segment n"
  obtain r w1 where imp: "import_module ?mp w = (r, w1)"
    by (cases "import_module ?mp w")
  obtain evs where t1: "trace w1 = trace w @ EvImport ?mp # evs" and s1: "filter is_step evs = []"
    using import_module_events [of ?mp w] imp by auto
  show ?thesis
  proof (cases r)
    case (Inl e)
    then have "snd (create n args w) = w1"
      using imp by (simp add: create_steps [OF assms] and_then_def)
    then show ?thesis
      using imp Inl t1 s1 by (simp add: new_events_append)
  next
    case (Inr m)
    show ?thesis
    proof (cases "mod_dict m cn")
      case None
      then have "snd (create n args w) = emit [EvGetattr cn] w1"
        using imp Inr by (simp add: create_steps [OF assms] and_then_def py_getattr_def)
      then have "trace (snd (create n args w)) = trace w @ (EvImport ?mp # evs @ [EvGetattr cn])"
        using t1 by simp
      then have "new_events w (snd (create n args w)) = EvImport ?mp # evs @ [EvGetattr cn]"
        by (rule new_events_append)
      then show ?thesis
        using imp Inr None s1 by simp
    next
      case (Some v)
      obtain evs' where c: "snd (py_call v args (emit [EvGetattr cn] w1)) =
          emit (EvCall args # evs') (emit [EvGetattr cn] w1)" and s2: "filter is_step evs' = []"
        using py_call_events by blast
      have "snd (create n args w) = emit (EvCall args # evs') (emit [EvGetattr cn] w1)"
        using imp Inr Some c by (simp add: create_steps [OF assms] and_then_def py_getattr_def)
      then have "trace (snd (create n args w)) =
          trace w @ (EvImport ?mp # evs @ EvGetattr cn # EvCall args # evs')"
        using t1 by simp
      then have "new_events w (snd (create n args w)) =
          EvImport ?mp # evs @ EvGetattr cn # EvCall args # evs'"
        by (rule new_events_append)
      then show ?thesis
        using imp Inr Some s1 s2 by simp
    qed
  qed
qed

subsection \<open>Facts about device classes\<close>

lemma cls_name_derived [simp]: "cls_name (abc_new name base ns) = name"
  by (simp add: abc_new_def Let_def)

lemma cls_dict_derived:
  "cls_dict (abc_new name base ns) k =
     (case namespace_dict ns k of None \<Rightarrow> cls_dict base k | Some m \<Rightarrow> Some m)"
  by (simp add: abc_new_def Let_def map_add_def)

lemma implements_device_class:
  assumes "device_class c"
  shows "set (abstractmethods c) \<subseteq> set lifecycle
       \<and> (\<forall>k \<in> set (abstractmethods c). is_abstract_in (cls_dict c) k)"
  using assms
proof (induction rule: device_class.induct)
  case device_contract
  show ?case
    by (auto simp: abstractmethods_SimulatedDevice cls_dict_SimulatedDevice lifecycle_def
        is_abstract_in_def)
next
  case (device_derived base ns name)
  have own: "k \<in> set lifecycle \<and> is_abstract_in (cls_dict base ++ namespace_dict ns) k"
    if "is_abstract_in (namespace_dict ns) k" for k
  proof -
    from that obtain m where m: "namespace_dict ns k = Some m" and a: "isabstract m"
      by (auto simp: is_abstract_in_def split: option.splits)
    from m have "(k, m) \<in> set ns"
      using map_of_SomeD [of "rev ns" k m] by (simp add: namespace_dict_def)
    then have "k \<in> set lifecycle" using a device_derived.hyps(2) by blast
    moreover have "is_abstract_in (cls_dict base ++ namespace_dict ns) k"
      using m a by (simp add: is_abstract_in_def map_add_def)
    ultimately show ?thesis by simp
  qed
  show ?case
    using own device_derived.IH by (auto simp: abc_new_def Let_def)
qed

text \<open>
  In a device class, implementing the three lifecycle methods is being concrete, and
  then the class call accepts whatever \<^verbatim>\<open>__init__\<close> accepts.
\<close>

lemma device_class_concrete:
  assumes "device_class c" and "\<forall>k \<in> set lifecycle. implements c k"
  shows "abstractmethods c = []"
proof (rule ccontr)
  assume "abstractmethods c \<noteq> []"
  then obtain k where k: "k \<in> set (abstractmethods c)"
    by (cases "abstractmethods c") auto
  then have "k \<in> set lifecycle" and "is_abstract_in (cls_dict c) k"
    using implements_device_class [OF assms(1)] by auto
  then show False
    using assms(2) by (auto simp: implements_def is_abstract_in_def split: option.splits)
qed

lemma device_class_accepts:
  assumes "device_class c" and "\<forall>k \<in> set lifecycle. implements c k"
    and "cls_dict c ''__init__'' = Some init"
    and "ret (body init Map.empty args) = Inr PyNone"
  shows "constructor_accepts c args"
  using device_class_concrete [OF assms(1,2)] assms(3,4)
  by (simp add: constructor_accepts_def)

subsection \<open>Facts about the example devices\<close>

lemma mangled_names:
  "mangle ''SimulatedDevice'' ''__report_state'' = ''_SimulatedDevice__report_state''"
  "mangle ''SimulatedDevice'' ''__send_telemetry'' = ''_SimulatedDevice__send_telemetry''"
  "mangle ''SimulatedDevice'' ''__properties'' = ''_SimulatedDevice__properties''"
  by (simp_all add: mangle_def)

lemma cls_name_examples [simp]:
  "cls_name Thermostat = ''Thermostat''" "cls_name Chatty = ''Chatty''"
  by (simp_all add: Thermostat_def Chatty_def)

lemma cls_dict_Thermostat:
  "cls_dict Thermostat ''__init__'' = Some \<lparr>isabstract = False, body = SimulatedDevice_init\<rparr>"
  "cls_dict Thermostat ''initialize'' = Some \<lparr>isabstract = False, body = SimulatedDevice_initialize\<rparr>"
  "cls_dict Thermostat ''on_update'' = Some \<lparr>isabstract = False, body = Thermostat_on_update\<rparr>"
  "cls_dict Thermostat ''run'' = Some \<lparr>isabstract = False, body = Thermostat_run\<rparr>"
  by (simp_all add: Thermostat_def cls_dict_derived namespace_dict_def cls_dict_SimulatedDevice)

lemma cls_dict_Chatty:
  "cls_dict Chatty ''__init__'' = Some \<lparr>isabstract = False, body = SimulatedDevice_init\<rparr>"
  "cls_dict Chatty ''initialize'' = Some \<lparr>isabstract = False, body = SimulatedDevice_initialize\<rparr>"
  "cls_dict Chatty ''on_update'' = Some \<lparr>isabstract = False, body = Chatty_on_update\<rparr>"
  "cls_dict Chatty ''run'' = Some \<lparr>isabstract = False, body = SimulatedDevice_run\<rparr>"
  by (simp_all add: Chatty_def cls_dict_derived namespace_dict_def cls_dict_SimulatedDevice)

lemma device_class_Thermostat: "device_class Thermostat"
  unfolding Thermostat_def by (rule device_derived [OF device_contract]) auto

lemma device_class_Chatty: "device_class Chatty"
  unfolding Chatty_def by (rule device_derived [OF device_contract]) auto

lemma implements_Thermostat: "\<forall>k \<in> set lifecycle. implements Thermostat k"
  by (simp add: lifecycle_def implements_def cls_dict_Thermostat)

lemma implements_Chatty: "\<forall>k \<in> set lifecycle. implements Chatty k"
  by (simp add: lifecycle_def implements_def cls_dict_Chatty)

lemma init_example: "SimulatedDevice_init Map.empty example_args =
   \<lparr>ret = Inr PyNone, self_after = bound_example, callouts = []\<rparr>"
  by (simp add: example_args_def bound_example_def mangled_names)

lemma instantiate_Thermostat:
  "instantiate Thermostat example_args w =
     (Inr (Instance Thermostat bound_example), emit [EvRun ''Thermostat'' ''__init__''] w)"
  by (simp add: instantiate_def device_class_concrete [OF device_class_Thermostat implements_Thermostat]
      cls_dict_Thermostat run_body_eq init_example)

lemma instantiate_Chatty:
  "instantiate Chatty example_args w =
     (Inr (Instance Chatty bound_example), emit [EvRun ''Chatty'' ''__init__''] w)"
  by (simp add: instantiate_def device_class_concrete [OF device_class_Chatty implements_Chatty]
      cls_dict_Chatty run_body_eq init_example)

section \<open>The claims\<close>

text \<open>
  C1. Let the module segment of the name resolve to a module, and let that module hold,
  under the class segment, a class \<open>c\<close> that implements \<^verbatim>\<open>initialize\<close>,
  \<^verbatim>\<open>on_update\<close> and \<^verbatim>\<open>run\<close> and whose constructor accepts the forwarded
  arguments. Then \<^verbatim>\<open>create\<close> returns an object, which is not None and is an instance
  of exactly \<open>c\<close>, and each of the three lifecycle calls on it runs the
  implementation that \<open>c\<close> provides.
\<close>

theorem create_returns_instance:
  assumes "import_module (module_segment n) w = (Inr m, w1)"
    and "class_segment n = Inr cn"
    and "mod_dict m cn = Some (Class c)"
    and "\<forall>k \<in> set lifecycle. implements c k"
    and "constructor_accepts c args"
  shows "\<exists>self. fst (create n args w) = Inr (Instance c self)
           \<and> fst (create n args w) \<noteq> Inr (Data PyNone)
           \<and> (\<forall>k \<in> set lifecycle. \<exists>meth. cls_dict c k = Some meth \<and> \<not> isabstract meth
                 \<and> (\<forall>margs w'. fst (call_method (Instance c self) k margs w') =
                       ret (body meth self margs)))"
proof -
  obtain self evs where
    "instantiate c args (emit [EvCall args] (emit [EvGetattr cn] w1)) =
       (Inr (Instance c self), emit evs (emit [EvCall args] (emit [EvGetattr cn] w1)))"
    using instantiate_accepted [OF assms(5)] by blast
  then have r: "fst (create n args w) = Inr (Instance c self)"
    using assms(1,3) by (simp add: create_steps [OF assms(2)] and_then_def py_getattr_def)
  have "\<exists>meth. cls_dict c k = Some meth \<and> \<not> isabstract meth
          \<and> (\<forall>margs w'. fst (call_method (Instance c self) k margs w') =
                ret (body meth self margs))"
    if "k \<in> set lifecycle" for k
  proof -
    from that assms(4) obtain meth where "cls_dict c k = Some meth" and "\<not> isabstract meth"
      by (auto simp: implements_def split: option.splits)
    then show ?thesis
      by (simp add: call_method_eq)
  qed
  then show ?thesis
    using r by auto
qed

theorem create_returns_instance_witness:
  "import_module (module_segment ''pkg.devices.Thermostat'') example_world =
     (Inr pkg_devices, devices_loaded)
   \<and> class_segment ''pkg.devices.Thermostat'' = Inr ''Thermostat''
   \<and> mod_dict pkg_devices ''Thermostat'' = Some (Class Thermostat)
   \<and> implements Thermostat ''initialize'' \<and> implements Thermostat ''on_update''
   \<and> implements Thermostat ''run''
   \<and> constructor_accepts Thermostat example_args
   \<and> fst (create ''pkg.devices.Thermostat'' example_args example_world) =
       Inr (Instance Thermostat bound_example)
   \<and> bound_example ''_SimulatedDevice__properties'' = Some (PyDict [(''min_temp'', PyInt 10)])"
proof -
  have i: "import_module (module_segment ''pkg.devices.Thermostat'') example_world =
      (Inr pkg_devices, devices_loaded)"
    by (simp add: segments_Thermostat import_pkg_devices)
  have a: "mod_dict pkg_devices ''Thermostat'' = Some (Class Thermostat)"
    by (simp add: pkg_devices_def)
  have c: "constructor_accepts Thermostat example_args"
    using device_class_accepts [OF device_class_Thermostat implements_Thermostat
        cls_dict_Thermostat(1)]
    by (simp add: init_example)
  have r: "create ''pkg.devices.Thermostat'' example_args example_world =
      (Inr (Instance Thermostat bound_example),
       emit [EvGetattr ''Thermostat'', EvCall example_args, EvRun ''Thermostat'' ''__init__'']
         devices_loaded)"
    using i a
    by (simp add: create_steps [OF segments_Thermostat(2)] and_then_def py_getattr_def
        instantiate_Thermostat)
  show ?thesis
    using i a implements_Thermostat c r
      create_returns_instance [OF i segments_Thermostat(2) a implements_Thermostat c]
    by (simp add: segments_Thermostat lifecycle_def bound_example_def)
qed

text \<open>
  C2. Instantiating \<^verbatim>\<open>SimulatedDevice\<close> itself, or any class descended from it that
  leaves out at least one of \<^verbatim>\<open>initialize\<close>, \<^verbatim>\<open>on_update\<close>, \<^verbatim>\<open>run\<close>, fails with
  the TypeError of an abstract class, whatever the arguments. The world comes back as
  it was: no method body has run, not even \<^verbatim>\<open>__init__\<close>.
\<close>

theorem abstract_class_not_instantiable:
  assumes "omits c k"
  shows "instantiate c args w = (Inl (TypeError ''Cannot instantiate abstract class''), w)
       \<and> py_call (Class c) args w =
           (Inl (TypeError ''Cannot instantiate abstract class''), emit [EvCall args] w)"
proof -
  have "abstractmethods c \<noteq> []"
    using omits_abstract [OF assms] by auto
  then show ?thesis
    by (simp add: instantiate_def)
qed

theorem abstract_class_not_instantiable_witness:
  "omits SimulatedDevice ''run'' \<and> omits HalfDevice ''on_update''
   \<and> instantiate SimulatedDevice example_args example_world =
       (Inl (TypeError ''Cannot instantiate abstract class''), example_world)
   \<and> instantiate HalfDevice example_args example_world =
       (Inl (TypeError ''Cannot instantiate abstract class''), example_world)"
proof -
  have a: "omits SimulatedDevice ''run''"
    by (rule omits_contract) (simp add: lifecycle_def)
  have "omits SimulatedDevice ''on_update''"
    by (rule omits_contract) (simp add: lifecycle_def)
  then have b: "omits HalfDevice ''on_update''"
    unfolding HalfDevice_def by (rule omits_derived) simp
  show ?thesis
    using a b abstract_class_not_instantiable [OF a, of example_args example_world]
      abstract_class_not_instantiable [OF b, of example_args example_world]
    by simp
qed

text \<open>
  C3. For a name with a separator, \<^verbatim>\<open>create\<close> is the specified algorithm: the two
  values it derives with \<^verbatim>\<open>split\<close>, \<^verbatim>\<open>join\<close> and the slices are what stands
  before and after the last separator; the result and the final world are those of
  resolving the module path, then looking the class name up on the module, then
  invoking what was found with the forwarded arguments. These three operations are
  recorded in that order, each once, and a later one only when the earlier ones
  succeeded. A module that is already loaded is returned as it is, with no loading, and
  a module that the import returns is in the cache of loaded modules afterwards.
\<close>

theorem create_follows_specified_algorithm:
  assumes "split_on_last_separator n = Some (mp, cn)"
  shows "module_segment n = mp \<and> class_segment n = Inr cn
       \<and> create_as_specified n args w = Some (create n args w)
       \<and> filter is_step (new_events w (snd (create n args w))) =
           (case import_module mp w of
              (Inl e, w1) \<Rightarrow> [EvImport mp]
            | (Inr m, w1) \<Rightarrow>
                (case mod_dict m cn of
                   None \<Rightarrow> [EvImport mp, EvGetattr cn]
                 | Some v \<Rightarrow> [EvImport mp, EvGetattr cn, EvCall args]))
       \<and> (case import_module mp w of
              (Inl e, w1) \<Rightarrow> True
            | (Inr m, w1) \<Rightarrow> sys_modules w1 mp = Some m)
       \<and> (\<forall>m. mp \<noteq> [] \<and> hd mp \<noteq> CHR ''.'' \<and> sys_modules w mp = Some m \<longrightarrow>
              import_module mp w = (Inr m, emit [EvImport mp] w))"
proof -
  have n: "n = mp @ CHR ''.'' # cn" and cn: "CHR ''.'' \<notin> set cn"
    using split_on_last_separator_cut [OF assms] by simp_all
  have mp: "module_segment n = mp"
    using module_segment_of_cut [OF cn] n by simp
  have cs: "class_segment n = Inr cn"
    using class_segment_of_cut [OF cn] n by simp
  have "create_as_specified n args w = Some (create n args w)"
    using assms mp by (simp add: create_as_specified_def create_steps [OF cs])
  moreover have "(case import_module mp w of
              (Inl e, w1) \<Rightarrow> True
            | (Inr m, w1) \<Rightarrow> sys_modules w1 mp = Some m)"
    by (auto split: prod.splits sum.splits dest: import_module_loaded)
  moreover have "\<forall>m. mp \<noteq> [] \<and> hd mp \<noteq> CHR ''.'' \<and> sys_modules w mp = Some m \<longrightarrow>
      import_module mp w = (Inr m, emit [EvImport mp] w)"
    by (simp add: import_module_hit)
  ultimately show ?thesis
    using mp cs create_step_events [OF cs, of w args, unfolded mp] by simp
qed

theorem create_follows_specified_algorithm_witness:
  "split_on_last_separator ''pkg.devices.Thermostat'' = Some (''pkg.devices'', ''Thermostat'')
   \<and> create_as_specified ''pkg.devices.Thermostat'' example_args example_world =
       Some (create ''pkg.devices.Thermostat'' example_args example_world)
   \<and> filter is_step (new_events example_world
         (snd (create ''pkg.devices.Thermostat'' example_args example_world))) =
       [EvImport ''pkg.devices'', EvGetattr ''Thermostat'', EvCall example_args]
   \<and> sys_modules (snd (import_module ''pkg.devices'' example_world)) ''pkg.devices'' =
       Some pkg_devices
   \<and> import_module ''pkg.devices'' devices_loaded =
       (Inr pkg_devices, emit [EvImport ''pkg.devices''] devices_loaded)"
proof -
  have h: "split_on_last_separator ''pkg.devices.Thermostat'' =
      Some (''pkg.devices'', ''Thermostat'')"
    by (simp add: split_on_last_separator_def)
  have l: "sys_modules devices_loaded ''pkg.devices'' = Some pkg_devices"
    by (simp add: devices_loaded_def)
  show ?thesis
    using h l create_follows_specified_algorithm [OF h, of example_args example_world]
      create_follows_specified_algorithm [OF h, of example_args devices_loaded]
    by (simp add: import_pkg_devices pkg_devices_def)
qed

text \<open>
  C4. The failure of a missing class is not always of another kind than the failure of a
  module that cannot be loaded. \<^verbatim>\<open>pkg.devices\<close> loads and has no
  \<^verbatim>\<open>NoSuchDevice\<close>: AttributeError, from the lookup. \<^verbatim>\<open>pkg.faulty\<close> is located
  and its body raises AttributeError: the import fails, and \<^verbatim>\<open>create\<close> fails with
  that AttributeError, the same exception class.
\<close>

theorem lookup_error_same_kind_counterexample:
  "import_module (module_segment ''pkg.devices.NoSuchDevice'') example_world =
     (Inr pkg_devices, devices_loaded)
   \<and> mod_dict pkg_devices ''NoSuchDevice'' = None
   \<and> fst (create ''pkg.devices.NoSuchDevice'' example_args example_world) =
       Inl (AttributeError ''NoSuchDevice'')
   \<and> finders example_world (module_segment ''pkg.faulty.Thermostat'') =
       Some (Inl (AttributeError ''settings''))
   \<and> fst (import_module (module_segment ''pkg.faulty.Thermostat'') example_world) =
       Inl (AttributeError ''settings'')
   \<and> fst (create ''pkg.faulty.Thermostat'' example_args example_world) =
       Inl (AttributeError ''settings'')
   \<and> exc_class (AttributeError ''settings'') = exc_class (AttributeError ''NoSuchDevice'')"
proof -
  have i: "import_module (module_segment ''pkg.devices.NoSuchDevice'') example_world =
      (Inr pkg_devices, devices_loaded)"
    by (simp add: segments_NoSuchDevice import_pkg_devices)
  have a: "mod_dict pkg_devices ''NoSuchDevice'' = None"
    by (simp add: pkg_devices_def)
  have c: "fst (create ''pkg.devices.NoSuchDevice'' example_args example_world) =
      Inl (AttributeError ''NoSuchDevice'')"
    using i a
    by (simp add: create_steps [OF segments_NoSuchDevice(2)] and_then_def py_getattr_def)
  have f: "fst (import_module (module_segment ''pkg.faulty.Thermostat'') example_world) =
      Inl (AttributeError ''settings'')"
    by (simp add: segments_missing import_pkg_faulty)
  have "fst (create ''pkg.faulty.Thermostat'' example_args example_world) =
      Inl (AttributeError ''settings'')"
    using create_import_fails [OF f] by simp
  then show ?thesis
    using i a c f by (simp add: segments_missing example_world_def)
qed

text \<open>
  C4, as amended. When the module segment resolves to a module that has no attribute
  named by the class segment, \<^verbatim>\<open>create\<close> fails with AttributeError, right after the
  lookup: nothing is called. Every failure of the import that is not an exception raised
  by the body of a located module is a ValueError, a TypeError or a
  ModuleNotFoundError, so of another class than this AttributeError; \<^verbatim>\<open>create\<close>
  fails with it. What the body of a located module raises comes out as it is, of
  whatever class.
\<close>

theorem create_missing_class:
  assumes "import_module (module_segment n) w = (Inr m, w1)"
    and "class_segment n = Inr cn"
    and "mod_dict m cn = None"
  shows "create n args w = (Inl (AttributeError cn), emit [EvGetattr cn] w1)
       \<and> (\<forall>n' args' w' e'.
             fst (import_module (module_segment n') w') = Inl e'
             \<and> (\<forall>x. finders w' x \<noteq> Some (Inl e'))
             \<longrightarrow> fst (create n' args' w') = Inl e'
                \<and> exc_class e' \<in> {''ValueError'', ''TypeError'', ''ModuleNotFoundError''}
                \<and> exc_class e' \<noteq> exc_class (AttributeError cn))"
proof -
  have "create n args w = (Inl (AttributeError cn), emit [EvGetattr cn] w1)"
    using assms by (simp add: create_steps [OF assms(2)] and_then_def py_getattr_def)
  moreover have "fst (create n' args' w') = Inl e'
      \<and> exc_class e' \<in> {''ValueError'', ''TypeError'', ''ModuleNotFoundError''}
      \<and> exc_class e' \<noteq> exc_class (AttributeError cn)"
    if f: "fst (import_module (module_segment n') w') = Inl e'"
      and own: "\<forall>x. finders w' x \<noteq> Some (Inl e')"
    for n' args' w' e'
  proof -
    have "fst (create n' args' w') = Inl e'"
      using create_import_fails [OF f] by simp
    moreover have "exc_class e' \<in> {''ValueError'', ''TypeError'', ''ModuleNotFoundError''}"
      using import_module_error_cases [OF f] own by auto
    ultimately show ?thesis by auto
  qed
  ultimately show ?thesis by blast
qed

theorem create_missing_class_witness:
  "import_module (module_segment ''pkg.devices.NoSuchDevice'') example_world =
     (Inr pkg_devices, devices_loaded)
   \<and> class_segment ''pkg.devices.NoSuchDevice'' = Inr ''NoSuchDevice''
   \<and> mod_dict pkg_devices ''NoSuchDevice'' = None
   \<and> create ''pkg.devices.NoSuchDevice'' example_args example_world =
       (Inl (AttributeError ''NoSuchDevice''), emit [EvGetattr ''NoSuchDevice''] devices_loaded)
   \<and> fst (import_module (module_segment ''pkg.missing.Thermostat'') example_world) =
       Inl (ModuleNotFoundError ''pkg.missing'')
   \<and> (\<forall>x. finders example_world x \<noteq> Some (Inl (ModuleNotFoundError ''pkg.missing'')))
   \<and> fst (create ''pkg.missing.Thermostat'' example_args example_world) =
       Inl (ModuleNotFoundError ''pkg.missing'')
   \<and> exc_class (ModuleNotFoundError ''pkg.missing'') \<noteq> ''AttributeError''"
proof -
  have i: "import_module (module_segment ''pkg.devices.NoSuchDevice'') example_world =
      (Inr pkg_devices, devices_loaded)"
    by (simp add: segments_NoSuchDevice import_pkg_devices)
  have a: "mod_dict pkg_devices ''NoSuchDevice'' = None"
    by (simp add: pkg_devices_def)
  have f: "fst (import_module (module_segment ''pkg.missing.Thermostat'') example_world) =
      Inl (ModuleNotFoundError ''pkg.missing'')"
    by (simp add: segments_missing import_pkg_missing)
  have own: "\<forall>x. finders example_world x \<noteq> Some (Inl (ModuleNotFoundError ''pkg.missing''))"
    by (simp add: example_world_def)
  show ?thesis
    using i a f own create_missing_class [OF i segments_NoSuchDevice(2) a, of example_args]
    by (simp add: segments_NoSuchDevice)
qed

text \<open>
  C5. When resolving the module segment of the name fails with \<open>e\<close> (the module or
  one of its parent packages is not located, or the body of one of them raises),
  \<^verbatim>\<open>create\<close> fails with that same \<open>e\<close> and constructs nothing: the world is the
  one the import left, and what has happened is the import and the bodies of the
  modules it loaded on the way, nothing else. No attribute was looked up and nothing
  was called. The error is the ValueError of an empty module name, the TypeError of a
  relative one, a ModuleNotFoundError, or what the body of a located module raised.
\<close>

theorem create_unresolved_module:
  assumes "fst (import_module (module_segment n) w) = Inl e"
  shows "fst (create n args w) = Inl e
       \<and> snd (create n args w) = snd (import_module (module_segment n) w)
       \<and> (\<exists>loaded. new_events w (snd (create n args w)) =
             EvImport (module_segment n) # map EvLoad loaded)
       \<and> ((module_segment n = [] \<and> e = ValueError ''Empty module name'')
          \<or> (module_segment n \<noteq> [] \<and> hd (module_segment n) = CHR ''.''
                \<and> exc_class e = ''TypeError'')
          \<or> (\<exists>x. e = ModuleNotFoundError x)
          \<or> (\<exists>x. finders w x = Some (Inl e)))"
proof -
  have c: "create n args w = (Inl e, snd (import_module (module_segment n) w))"
    using assms by (rule create_import_fails)
  obtain loaded where
    "trace (snd (import_module (module_segment n) w)) =
       trace w @ EvImport (module_segment n) # map EvLoad loaded"
    using import_module_trace by blast
  then have "new_events w (snd (create n args w)) =
      EvImport (module_segment n) # map EvLoad loaded"
    using c by (simp add: new_events_append)
  then show ?thesis
    using c import_module_error_cases [OF assms] by auto
qed

theorem create_unresolved_module_witness:
  "fst (import_module (module_segment ''pkg.missing.Thermostat'') example_world) =
     Inl (ModuleNotFoundError ''pkg.missing'')
   \<and> fst (create ''pkg.missing.Thermostat'' example_args example_world) =
       Inl (ModuleNotFoundError ''pkg.missing'')
   \<and> new_events example_world (snd (create ''pkg.missing.Thermostat'' example_args example_world)) =
       [EvImport ''pkg.missing'', EvLoad ''pkg'']
   \<and> sys_modules (snd (create ''pkg.missing.Thermostat'' example_args example_world)) ''pkg'' =
       Some pkg
   \<and> fst (import_module (module_segment ''pkg.broken.Thermostat'') example_world) =
       Inl (PyExc ''RuntimeError'' ''boom'')
   \<and> fst (create ''pkg.broken.Thermostat'' example_args example_world) =
       Inl (PyExc ''RuntimeError'' ''boom'')
   \<and> new_events example_world (snd (create ''pkg.broken.Thermostat'' example_args example_world)) =
       [EvImport ''pkg.broken'', EvLoad ''pkg'', EvLoad ''pkg.broken'']
   \<and> fst (import_module (module_segment ''nopkg.devices.Thermostat'') example_world) =
       Inl (ModuleNotFoundError ''nopkg'')
   \<and> create ''nopkg.devices.Thermostat'' example_args example_world =
       (Inl (ModuleNotFoundError ''nopkg''), emit [EvImport ''nopkg.devices''] example_world)"
proof -
  have a: "fst (import_module (module_segment ''pkg.missing.Thermostat'') example_world) =
      Inl (ModuleNotFoundError ''pkg.missing'')"
    by (simp add: segments_missing import_pkg_missing)
  have b: "fst (import_module (module_segment ''pkg.broken.Thermostat'') example_world) =
      Inl (PyExc ''RuntimeError'' ''boom'')"
    by (simp add: segments_missing import_pkg_broken)
  have c: "fst (import_module (module_segment ''nopkg.devices.Thermostat'') example_world) =
      Inl (ModuleNotFoundError ''nopkg'')"
    by (simp add: segments_missing import_nopkg_devices)
  have ra: "create ''pkg.missing.Thermostat'' example_args example_world =
      (Inl (ModuleNotFoundError ''pkg.missing''), pkg_loaded ''pkg.missing'')"
    using create_unresolved_module [OF a, of example_args]
    by (simp add: segments_missing import_pkg_missing prod_eq_iff)
  have rb: "create ''pkg.broken.Thermostat'' example_args example_world =
      (Inl (PyExc ''RuntimeError'' ''boom''),
       emit [EvLoad ''pkg.broken''] (pkg_loaded ''pkg.broken''))"
    using create_unresolved_module [OF b, of example_args]
    by (simp add: segments_missing import_pkg_broken prod_eq_iff)
  have rc: "create ''nopkg.devices.Thermostat'' example_args example_world =
      (Inl (ModuleNotFoundError ''nopkg''), emit [EvImport ''nopkg.devices''] example_world)"
    using create_unresolved_module [OF c, of example_args]
    by (simp add: segments_missing import_nopkg_devices prod_eq_iff)
  have ta: "new_events example_world (pkg_loaded ''pkg.missing'') =
      [EvImport ''pkg.missing'', EvLoad ''pkg'']"
    by (simp add: new_events_def pkg_loaded_def)
  have tb: "new_events example_world (emit [EvLoad ''pkg.broken''] (pkg_loaded ''pkg.broken'')) =
      [EvImport ''pkg.broken'', EvLoad ''pkg'', EvLoad ''pkg.broken'']"
    by (simp add: new_events_def pkg_loaded_def)
  have ca: "sys_modules (pkg_loaded ''pkg.missing'') ''pkg'' = Some pkg"
    by (simp add: pkg_loaded_def)
  show ?thesis
    using a b c ra rb rc ta tb ca by simp
qed

text \<open>
  C6. Every error comes out of \<^verbatim>\<open>create\<close> as it was raised. An error of the
  import, of the attribute lookup or of the call is the error of \<^verbatim>\<open>create\<close>, and
  the world is the one the failing step left: nothing happened after it and no step
  was tried again. An error of \<^verbatim>\<open>__init__\<close> is the error of the class call, and
  an error of a method body is the error of the method call on the instance.
  Conversely, an error of \<^verbatim>\<open>create\<close> is always the error of one of its three
  steps: \<^verbatim>\<open>create\<close> raises none of its own.
\<close>

theorem errors_propagate_unmodified:
  "(fst (import_module (module_segment n) w) = Inl e \<longrightarrow>
      create n args w = (Inl e, snd (import_module (module_segment n) w)))
   \<and> (import_module (module_segment n) w = (Inr m, w1) \<and> class_segment n = Inr cn
        \<and> fst (py_getattr m cn w1) = Inl e \<longrightarrow>
      create n args w = (Inl e, snd (py_getattr m cn w1)))
   \<and> (import_module (module_segment n) w = (Inr m, w1) \<and> class_segment n = Inr cn
        \<and> py_getattr m cn w1 = (Inr v, w2) \<and> fst (py_call v args w2) = Inl e \<longrightarrow>
      create n args w = (Inl e, snd (py_call v args w2)))
   \<and> (abstractmethods c = [] \<and> cls_dict c ''__init__'' = Some init
        \<and> ret (body init Map.empty args) = Inl e \<longrightarrow>
      fst (py_call (Class c) args w) = Inl e)
   \<and> (cls_dict c k = Some meth \<and> ret (body meth self margs) = Inl e \<longrightarrow>
      fst (call_method (Instance c self) k margs w) = Inl e)
   \<and> (fst (create n args w) = Inl e \<longrightarrow>
      fst (import_module (module_segment n) w) = Inl e
      \<or> (\<exists>m w1 cn. import_module (module_segment n) w = (Inr m, w1) \<and> class_segment n = Inr cn
            \<and> (fst (py_getattr m cn w1) = Inl e
               \<or> (\<exists>v w2. py_getattr m cn w1 = (Inr v, w2) \<and> fst (py_call v args w2) = Inl e))))"
proof -
  have 1: "create n args w = (Inl e, snd (import_module (module_segment n) w))"
    if "fst (import_module (module_segment n) w) = Inl e"
    using that by (rule create_import_fails)
  have 2: "create n args w = (Inl e, snd (py_getattr m cn w1))"
    if "import_module (module_segment n) w = (Inr m, w1)" "class_segment n = Inr cn"
      "fst (py_getattr m cn w1) = Inl e"
    using that by (cases "py_getattr m cn w1") (simp add: create_steps and_then_def)
  have 3: "create n args w = (Inl e, snd (py_call v args w2))"
    if "import_module (module_segment n) w = (Inr m, w1)" "class_segment n = Inr cn"
      "py_getattr m cn w1 = (Inr v, w2)" "fst (py_call v args w2) = Inl e"
    using that by (cases "py_call v args w2") (simp add: create_steps and_then_def)
  have 4: "fst (py_call (Class c) args w) = Inl e"
    if "abstractmethods c = []" "cls_dict c ''__init__'' = Some init"
      "ret (body init Map.empty args) = Inl e"
    using that by (simp add: instantiate_def run_body_eq)
  have 5: "fst (call_method (Instance c self) k margs w) = Inl e"
    if "cls_dict c k = Some meth" "ret (body meth self margs) = Inl e"
    using that by (simp add: call_method_eq)
  have 6: "fst (import_module (module_segment n) w) = Inl e
      \<or> (\<exists>m w1 cn. import_module (module_segment n) w = (Inr m, w1) \<and> class_segment n = Inr cn
            \<and> (fst (py_getattr m cn w1) = Inl e
               \<or> (\<exists>v w2. py_getattr m cn w1 = (Inr v, w2) \<and> fst (py_call v args w2) = Inl e)))"
    if "fst (create n args w) = Inl e"
    using that
    by (auto simp: create_steps [OF class_segment_total] class_segment_total and_then_def
        split: prod.splits sum.splits)
  show ?thesis
    using 1 2 3 4 5 6 by blast
qed

theorem errors_propagate_unmodified_witness:
  "create ''pkg.missing.Thermostat'' example_args example_world =
     (Inl (ModuleNotFoundError ''pkg.missing''), pkg_loaded ''pkg.missing'')
   \<and> create ''pkg.devices.NoSuchDevice'' example_args example_world =
       (Inl (AttributeError ''NoSuchDevice''), emit [EvGetattr ''NoSuchDevice''] devices_loaded)
   \<and> fst (create ''pkg.devices.HalfDevice'' example_args example_world) =
       Inl (TypeError ''Cannot instantiate abstract class'')
   \<and> fst (py_call (Class Thermostat) [] example_world) =
       Inl (TypeError ''__init__() takes 4 positional arguments'')
   \<and> fst (call_method (Instance Thermostat bound_example) ''run'' [] example_world) =
       Inl (PyExc ''RuntimeError'' ''sensor failure'')"
proof -
  have a: "import_module (module_segment ''pkg.missing.Thermostat'') example_world =
      (Inl (ModuleNotFoundError ''pkg.missing''), pkg_loaded ''pkg.missing'')"
    by (simp add: segments_missing import_pkg_missing)
  have i: "import_module (module_segment ''pkg.devices.NoSuchDevice'') example_world =
      (Inr pkg_devices, devices_loaded)"
    by (simp add: segments_NoSuchDevice import_pkg_devices)
  have g: "py_getattr pkg_devices ''NoSuchDevice'' devices_loaded =
      (Inl (AttributeError ''NoSuchDevice''), emit [EvGetattr ''NoSuchDevice''] devices_loaded)"
    by (simp add: py_getattr_def pkg_devices_def)
  have i': "import_module (module_segment ''pkg.devices.HalfDevice'') example_world =
      (Inr pkg_devices, devices_loaded)"
    by (simp add: segments_HalfDevice import_pkg_devices)
  have g': "py_getattr pkg_devices ''HalfDevice'' devices_loaded =
      (Inr (Class HalfDevice), emit [EvGetattr ''HalfDevice''] devices_loaded)"
    by (simp add: py_getattr_def pkg_devices_def)
  have "omits SimulatedDevice ''on_update''"
    by (rule omits_contract) (simp add: lifecycle_def)
  then have "omits HalfDevice ''on_update''"
    unfolding HalfDevice_def by (rule omits_derived) simp
  then have "abstractmethods HalfDevice \<noteq> []"
    using omits_abstract by fastforce
  then have c: "fst (py_call (Class HalfDevice) example_args
      (emit [EvGetattr ''HalfDevice''] devices_loaded)) =
      Inl (TypeError ''Cannot instantiate abstract class'')"
    by (simp add: instantiate_def)
  have t: "ret (body \<lparr>isabstract = False, body = SimulatedDevice_init\<rparr> Map.empty []) =
      Inl (TypeError ''__init__() takes 4 positional arguments'')"
    by (simp add: raises_def)
  have r: "ret (body \<lparr>isabstract = False, body = Thermostat_run\<rparr> bound_example []) =
      Inl (PyExc ''RuntimeError'' ''sensor failure'')"
    by (simp add: raises_def)
  have abs: "abstractmethods Thermostat = []"
    by (rule device_class_concrete [OF device_class_Thermostat implements_Thermostat])
  show ?thesis
    using a i g i' g' c t r abs
      errors_propagate_unmodified [where n = "''pkg.missing.Thermostat''" and w = example_world
        and e = "ModuleNotFoundError ''pkg.missing''" and args = example_args]
      errors_propagate_unmodified [where n = "''pkg.devices.NoSuchDevice''" and w = example_world
        and e = "AttributeError ''NoSuchDevice''" and args = example_args
        and m = pkg_devices and ?w1.0 = devices_loaded and cn = "''NoSuchDevice''"]
      errors_propagate_unmodified [where n = "''pkg.devices.HalfDevice''" and w = example_world
        and e = "TypeError ''Cannot instantiate abstract class''" and args = example_args
        and m = pkg_devices and ?w1.0 = devices_loaded and cn = "''HalfDevice''"
        and v = "Class HalfDevice" and ?w2.0 = "emit [EvGetattr ''HalfDevice''] devices_loaded"]
      errors_propagate_unmodified [where c = Thermostat and args = "[]" and w = example_world
        and init = "\<lparr>isabstract = False, body = SimulatedDevice_init\<rparr>"
        and e = "TypeError ''__init__() takes 4 positional arguments''"]
      errors_propagate_unmodified [where c = Thermostat and k = "''run''" and margs = "[]"
        and self = bound_example and w = example_world
        and meth = "\<lparr>isabstract = False, body = Thermostat_run\<rparr>"
        and e = "PyExc ''RuntimeError'' ''sensor failure''"]
    by (simp add: segments_NoSuchDevice segments_HalfDevice cls_dict_Thermostat)
qed

text \<open>
  C7. \<^verbatim>\<open>__init__\<close> stores the three references it is given under the private names
  \<^verbatim>\<open>_SimulatedDevice__report_state\<close>, \<^verbatim>\<open>_SimulatedDevice__send_telemetry\<close> and
  \<^verbatim>\<open>_SimulatedDevice__properties\<close> of the instance, and touches nothing else. The
  three operations of the contract leave the instance dictionary as it is, whatever
  their arguments, and return None or the TypeError of a wrong argument count, never
  one of the references. The contract defines \<^verbatim>\<open>__init__\<close> and these three
  operations and nothing more: there is no accessor.
\<close>

theorem bound_references_private_and_fixed:
  "self_after (SimulatedDevice_init self [r, t, p]) =
     self(''_SimulatedDevice__report_state'' \<mapsto> r,
          ''_SimulatedDevice__send_telemetry'' \<mapsto> t,
          ''_SimulatedDevice__properties'' \<mapsto> p)
   \<and> self_after (SimulatedDevice_initialize self args) = self
   \<and> self_after (SimulatedDevice_on_update self args) = self
   \<and> self_after (SimulatedDevice_run self args) = self
   \<and> ret (SimulatedDevice_initialize self args) \<in>
       {Inr PyNone, Inl (TypeError ''initialize() takes 1 positional argument'')}
   \<and> ret (SimulatedDevice_on_update self args) \<in>
       {Inr PyNone, Inl (TypeError ''on_update() takes 3 positional arguments'')}
   \<and> ret (SimulatedDevice_run self args) \<in>
       {Inr PyNone, Inl (TypeError ''run() takes 1 positional argument'')}
   \<and> map fst SimulatedDevice_namespace = [''__init__'', ''initialize'', ''on_update'', ''run'']
   \<and> dom (cls_dict SimulatedDevice) = {''__init__'', ''initialize'', ''on_update'', ''run''}
   \<and> cls_dict SimulatedDevice ''initialize'' =
       Some \<lparr>isabstract = True, body = SimulatedDevice_initialize\<rparr>
   \<and> cls_dict SimulatedDevice ''on_update'' =
       Some \<lparr>isabstract = True, body = SimulatedDevice_on_update\<rparr>
   \<and> cls_dict SimulatedDevice ''run'' =
       Some \<lparr>isabstract = True, body = SimulatedDevice_run\<rparr>"
proof -
  have i: "self_after (SimulatedDevice_initialize self args) = self
      \<and> ret (SimulatedDevice_initialize self args) \<in>
          {Inr PyNone, Inl (TypeError ''initialize() takes 1 positional argument'')}"
    by (cases "(self, args)" rule: SimulatedDevice_initialize.cases)
      (simp_all add: returns_none_def raises_def)
  have u: "self_after (SimulatedDevice_on_update self args) = self
      \<and> ret (SimulatedDevice_on_update self args) \<in>
          {Inr PyNone, Inl (TypeError ''on_update() takes 3 positional arguments'')}"
    by (cases "(self, args)" rule: SimulatedDevice_on_update.cases)
      (simp_all add: returns_none_def raises_def)
  have r: "self_after (SimulatedDevice_run self args) = self
      \<and> ret (SimulatedDevice_run self args) \<in>
          {Inr PyNone, Inl (TypeError ''run() takes 1 positional argument'')}"
    by (cases "(self, args)" rule: SimulatedDevice_run.cases)
      (simp_all add: returns_none_def raises_def)
  have d: "dom (cls_dict SimulatedDevice) = {''__init__'', ''initialize'', ''on_update'', ''run''}"
    unfolding cls_dict_SimulatedDevice by (simp only: dom_fun_upd dom_empty) auto
  show ?thesis
    using i u r d
    by (simp add: mangled_names SimulatedDevice_namespace_def cls_dict_SimulatedDevice)
qed

text \<open>
  C8. Not every concrete device's \<^verbatim>\<open>on_update\<close> invokes only the two callables the
  device is bound to, since the contract has nothing that enforces it: the device
  \<^verbatim>\<open>Chatty\<close> descends from the contract, implements the three operations, is
  constructed with the report-state and send-telemetry callables, and its
  \<^verbatim>\<open>on_update\<close> calls \<^verbatim>\<open>print\<close>.
\<close>

theorem on_update_other_callable_counterexample:
  "device_class Chatty
   \<and> implements Chatty ''initialize'' \<and> implements Chatty ''on_update''
   \<and> implements Chatty ''run''
   \<and> fst (instantiate Chatty example_args example_world) = Inr (Instance Chatty bound_example)
   \<and> bound_example ''_SimulatedDevice__report_state'' = Some (PyFunc ''report_fn'')
   \<and> bound_example ''_SimulatedDevice__send_telemetry'' = Some (PyFunc ''telemetry_fn'')
   \<and> callees (new_events example_world (snd (snd
         (call_method (Instance Chatty bound_example) ''on_update''
            [PyStr ''desired'', PyInt 21] example_world)))) = [PyFunc ''print'']
   \<and> PyFunc ''print'' \<notin> {PyFunc ''report_fn'', PyFunc ''telemetry_fn''}"
  by (simp add: device_class_Chatty implements_def cls_dict_Chatty instantiate_Chatty
      call_method_eq bound_example_def)

text \<open>
  C8, as amended. A call to \<^verbatim>\<open>on_update\<close> on a device invokes exactly the callables
  that the body of the device's own \<^verbatim>\<open>on_update\<close> invokes, in its order: the call
  through the contract adds none. The \<^verbatim>\<open>on_update\<close> that the contract itself defines
  invokes no callable at all.
\<close>

theorem on_update_invokes_what_its_body_invokes:
  assumes "cls_dict c ''on_update'' = Some meth"
  shows "callees (new_events w (snd (snd (call_method (Instance c self) ''on_update'' args w)))) =
           map fst (callouts (body meth self args))
       \<and> callouts (SimulatedDevice_on_update self args) = []"
proof -
  have "callouts (SimulatedDevice_on_update self args) = []"
    by (cases "(self, args)" rule: SimulatedDevice_on_update.cases)
      (simp_all add: returns_none_def raises_def)
  then show ?thesis
    using assms by (simp add: call_method_eq)
qed

theorem on_update_invokes_what_its_body_invokes_witness:
  "cls_dict Thermostat ''on_update'' = Some \<lparr>isabstract = False, body = Thermostat_on_update\<rparr>
   \<and> callees (new_events example_world (snd (snd
         (call_method (Instance Thermostat bound_example) ''on_update''
            [PyStr ''desired'', PyInt 21] example_world)))) = [PyFunc ''report_fn'']"
proof -
  have h: "cls_dict Thermostat ''on_update'' =
      Some \<lparr>isabstract = False, body = Thermostat_on_update\<rparr>"
    by (simp add: cls_dict_Thermostat)
  show ?thesis
    using h on_update_invokes_what_its_body_invokes [OF h, of example_world bound_example
        "[PyStr ''desired'', PyInt 21]"]
    by (simp add: bound_example_def mangled_names)
qed

text \<open>
  C9. A name with no separator (the empty name included) has the empty module segment
  and is its own class segment. \<^verbatim>\<open>create\<close> then fails inside the import, with the
  ValueError of the empty module name, and the import is the only operation carried
  out: no attribute lookup, no call.
\<close>

theorem create_no_separator:
  assumes "CHR ''.'' \<notin> set s"
  shows "module_segment s = [] \<and> class_segment s = Inr s
       \<and> create s args w = (Inl (ValueError ''Empty module name''), emit [EvImport []] w)"
proof -
  have parts: "split CHR ''.'' s = [s]"
    using assms by (rule no_separator_parts)
  have mp: "module_segment s = []"
    by (simp add: module_segment_def parts)
  have cn: "class_segment s = Inr s"
    by (simp add: class_segment_def index_last_def parts)
  have "import_module [] w = (Inl (ValueError ''Empty module name''), emit [EvImport []] w)"
    by (simp add: import_module_def)
  then show ?thesis
    using mp cn by (simp add: create_steps [OF cn] and_then_def)
qed

theorem create_no_separator_witness:
  "CHR ''.'' \<notin> set ''Thermostat'' \<and> CHR ''.'' \<notin> set ''''
   \<and> create ''Thermostat'' example_args example_world =
       (Inl (ValueError ''Empty module name''), emit [EvImport []] example_world)
   \<and> create '''' example_args example_world =
       (Inl (ValueError ''Empty module name''), emit [EvImport []] example_world)"
proof -
  have a: "CHR ''.'' \<notin> set ''Thermostat''" by simp
  have b: "CHR ''.'' \<notin> set ''''" by simp
  show ?thesis
    using a b create_no_separator [OF a, of example_args example_world]
      create_no_separator [OF b, of example_args example_world]
    by simp
qed

text \<open>
  C10. Whatever object the module holds under the class segment, a class or not, a
  subclass of the contract or not, \<^verbatim>\<open>create\<close> calls it with the forwarded arguments
  and returns what the call gives, result or exception: no check stands between the
  lookup and the call.
\<close>

theorem create_invokes_whatever_is_found:
  assumes "import_module (module_segment n) w = (Inr m, w1)"
    and "class_segment n = Inr cn"
    and "mod_dict m cn = Some v"
  shows "create n args w = py_call v args (emit [EvGetattr cn] w1)"
  using assms
  by (simp add: create_steps [OF assms(2)] and_then_def py_getattr_def)

theorem create_invokes_whatever_is_found_witness:
  "import_module (module_segment ''pkg.devices.VERSION'') example_world =
     (Inr pkg_devices, devices_loaded)
   \<and> class_segment ''pkg.devices.VERSION'' = Inr ''VERSION''
   \<and> mod_dict pkg_devices ''VERSION'' = Some (Data (PyInt 3))
   \<and> fst (create ''pkg.devices.VERSION'' example_args example_world) =
       Inl (TypeError ''object is not callable'')
   \<and> mod_dict pkg_devices ''helper'' = Some (Data (PyFunc ''helper''))
   \<and> fst (create ''pkg.devices.helper'' example_args example_world) =
       Inr (Data (PyStr ''helper''))"
proof -
  have i: "import_module (module_segment ''pkg.devices.VERSION'') example_world =
      (Inr pkg_devices, devices_loaded)"
    by (simp add: segments_VERSION import_pkg_devices)
  have i': "import_module (module_segment ''pkg.devices.helper'') example_world =
      (Inr pkg_devices, devices_loaded)"
    by (simp add: segments_helper import_pkg_devices)
  have v: "mod_dict pkg_devices ''VERSION'' = Some (Data (PyInt 3))"
    by (simp add: pkg_devices_def)
  have h: "mod_dict pkg_devices ''helper'' = Some (Data (PyFunc ''helper''))"
    by (simp add: pkg_devices_def)
  have f: "funcs (emit [EvGetattr ''helper''] devices_loaded) ''helper'' example_args =
      Inr (PyStr ''helper'')"
    by (simp add: devices_loaded_def example_world_def emit_def)
  show ?thesis
    using i v h f
      create_invokes_whatever_is_found [OF i segments_VERSION(2) v, of example_args]
      create_invokes_whatever_is_found [OF i' segments_helper(2) h, of example_args]
    by (simp add: segments_VERSION)
qed

end
